theory Spec2Isabelle
  imports Complex_Main "HOL-Library.Monad_Syntax" "HOL-Library.Multiset"
    "HOL-Library.Char_ord" "HOL-Library.List_Lexorder"
begin

section \<open>Data model\<close>

text \<open>
  The scripts run on the Earth Engine client library: images, features and reducers are
  library objects.  The embedding keeps the part of their contract the scripts rely on.

  A raster band is a function from grid cells to pixels; a pixel is either a number or
  masked ("no data", \<open>None\<close>).  Numbers are idealised as reals.  A zone geometry is the
  list of the cells whose centre falls inside the polygon.  A feature carries an
  identifier, a geometry and a dictionary of properties; a property is a number or a
  string.
\<close>

type_synonym cell = nat
type_synonym pixel = "real option"
type_synonym image = "cell \<Rightarrow> pixel"

datatype val = Num real | Str string

record feature =
  fid :: string
  geometry :: "cell list"
  properties :: "string \<rightharpoonup> val"

type_synonym featureCollection = "feature list"

text \<open>A multi-band image is a list of named bands, as built by \<open>ee.Image([...])\<close>.\<close>

type_synonym multiband = "(string \<times> image) list"

section \<open>The raster algebra the scripts call\<close>

text \<open>
  Comparisons yield 1 or 0 and keep the mask of their input.  A binary operation
  (\<open>and\<close>, \<open>max\<close>) is masked wherever either operand is masked: the mask of the result
  is the intersection of the operands' masks.
\<close>

definition img_gte :: "image \<Rightarrow> real \<Rightarrow> image" where
  "img_gte img k = (\<lambda>c. map_option (\<lambda>v. if k \<le> v then 1 else 0) (img c))"

definition img_lte :: "image \<Rightarrow> real \<Rightarrow> image" where
  "img_lte img k = (\<lambda>c. map_option (\<lambda>v. if v \<le> k then 1 else 0) (img c))"

definition img_gt :: "image \<Rightarrow> real \<Rightarrow> image" where
  "img_gt img k = (\<lambda>c. map_option (\<lambda>v. if k < v then 1 else 0) (img c))"

definition img_eq :: "image \<Rightarrow> real \<Rightarrow> image" where
  "img_eq img k = (\<lambda>c. map_option (\<lambda>v. if v = k then 1 else 0) (img c))"

definition img_and :: "image \<Rightarrow> image \<Rightarrow> image" where
  "img_and a b = (\<lambda>c. case (a c, b c) of
      (Some x, Some y) \<Rightarrow> Some (if x \<noteq> 0 \<and> y \<noteq> 0 then 1 else 0)
    | _ \<Rightarrow> None)"

definition img_max :: "image \<Rightarrow> image \<Rightarrow> image" where
  "img_max a b = (\<lambda>c. case (a c, b c) of
      (Some x, Some y) \<Rightarrow> Some (max x y)
    | _ \<Rightarrow> None)"

text \<open>
  \<open>updateMask\<close> keeps a pixel only where it is valid already and the mask image is
  valid and non-zero.
\<close>

definition img_updateMask :: "image \<Rightarrow> image \<Rightarrow> image" where
  "img_updateMask img msk = (\<lambda>c. case (img c, msk c) of
      (Some v, Some m) \<Rightarrow> (if m \<noteq> 0 then Some v else None)
    | _ \<Rightarrow> None)"

definition img_selfMask :: "image \<Rightarrow> image" where
  "img_selfMask img = img_updateMask img img"

text \<open>
  \<open>input.where(test, value)\<close> replaces the pixel by the constant where the test is
  non-zero and leaves it alone elsewhere; a masked input pixel stays masked.
\<close>

definition img_where :: "image \<Rightarrow> image \<Rightarrow> real \<Rightarrow> image" where
  "img_where input test v = (\<lambda>c. case input c of
      None \<Rightarrow> None
    | Some x \<Rightarrow> (case test c of
          Some t \<Rightarrow> (if t \<noteq> 0 then Some v else Some x)
        | None \<Rightarrow> Some x))"

section \<open>Landslide script: hazard fusion\<close>

definition maskValidRiskLevels :: "image \<Rightarrow> image" where
  "maskValidRiskLevels img =
     (let msk = img_and (img_gte img 1) (img_lte img 8)
      in img_updateMask img msk)"

definition combineLandslideHazards :: "image \<Rightarrow> image \<Rightarrow> image" where
  "combineLandslideHazards earthquakeHazard precipitationHazard =
     (let maskedEQ = maskValidRiskLevels earthquakeHazard;
          maskedPR = maskValidRiskLevels precipitationHazard
      in img_max maskedEQ maskedPR)"

text \<open>
  Every test of the \<open>where\<close> chain is computed from the function's argument, not from
  the intermediate result; \<open>rename\<close> only changes the band's name.
\<close>

definition reclassifyRisk :: "image \<Rightarrow> image" where
  "reclassifyRisk img =
     img_where
       (img_where
         (img_where
           (img_where img (img_and (img_gte img 1) (img_lte img 2)) 1)
           (img_and (img_gte img 3) (img_lte img 4)) 2)
         (img_and (img_gte img 5) (img_lte img 6)) 3)
       (img_and (img_gte img 7) (img_lte img 8)) 4"

text \<open>A trigger is valid at a cell when its pixel is a number of the closed range 1..8.\<close>

definition validTrigger :: "image \<Rightarrow> cell \<Rightarrow> bool" where
  "validTrigger img c = (case img c of Some v \<Rightarrow> 1 \<le> v \<and> v \<le> 8 | None \<Rightarrow> False)"

section \<open>Numbers, dictionaries and features\<close>

text \<open>
  \<open>ee.Number(ee.Algorithms.If(value, value, 0))\<close>: a missing entry and a zero entry both
  give 0, any other number is kept.
\<close>

definition nullProtect :: "real option \<Rightarrow> real" where
  "nullProtect value = (case value of Some v \<Rightarrow> (if v \<noteq> 0 then v else 0) | None \<Rightarrow> 0)"

text \<open>
  \<open>round\<close> gives the nearest integer, as a number again.  A value halfway between two
  integers is taken upwards here; the properties below use only that rounding is
  monotone and moves a value by at most 1/2, and the examples stay clear of halves.
\<close>

definition ee_round :: "real \<Rightarrow> real" where
  "ee_round x = of_int (round x)"

text \<open>
  Division is the one operation of the scripts that can be undefined; the model makes a
  zero divisor a failure (\<open>None\<close>), so that "no division by zero" is a statement about
  the result.
\<close>

definition ee_divide :: "real \<Rightarrow> real \<Rightarrow> real option" where
  "ee_divide a b = (if b = 0 then None else Some (a / b))"

text \<open>
  \<open>feature.set({...})\<close> returns the feature with the listed properties written over
  the old dictionary; identifier and geometry are kept.  \<open>ee.Feature(null, {...})\<close> has
  no geometry and no identifier yet.
\<close>

definition feature_set :: "feature \<Rightarrow> (string \<times> val) list \<Rightarrow> feature" where
  "feature_set f kvs = f\<lparr>properties := properties f ++ map_of kvs\<rparr>"

definition ee_Feature_null :: "(string \<times> val) list \<Rightarrow> feature" where
  "ee_Feature_null kvs = \<lparr>fid = [], geometry = [], properties = map_of kvs\<rparr>"

text \<open>Reading a numeric property; a missing or non-numeric one counts as 0.\<close>

definition numProperty :: "feature \<Rightarrow> string \<Rightarrow> real" where
  "numProperty f k = (case properties f k of Some (Num x) \<Rightarrow> x | _ \<Rightarrow> 0)"

section \<open>Zonal reduction\<close>

text \<open>
  \<open>reduceRegion\<close> with the sum reducer: per band, the sum of the valid pixels of the
  region; a band with no valid pixel in the region has no entry in the result.  The
  arguments \<open>scale\<close>, \<open>maxPixels\<close>, \<open>bestEffort\<close> and \<open>tileScale\<close> tell the engine how
  to evaluate the sum; the scripts pass the same constants at every call, and the model
  is the sum itself.
\<close>

definition reduceSum :: "image \<Rightarrow> cell list \<Rightarrow> real option" where
  "reduceSum img region =
     (let vs = List.map_filter img region
      in if vs = [] then None else Some (sum_list vs))"

definition reduceRegion :: "multiband \<Rightarrow> cell list \<Rightarrow> (string \<rightharpoonup> real)" where
  "reduceRegion bands region =
     (\<lambda>name. case map_of bands name of None \<Rightarrow> None | Some img \<Rightarrow> reduceSum img region)"

section \<open>Collections\<close>

definition aggregate_array :: "featureCollection \<Rightarrow> string \<Rightarrow> val list" where
  "aggregate_array fc k = List.map_filter (\<lambda>f. properties f k) fc"

definition aggregate_sum :: "featureCollection \<Rightarrow> string \<Rightarrow> real" where
  "aggregate_sum fc k =
     sum_list (List.map_filter
       (\<lambda>f. case properties f k of Some (Num x) \<Rightarrow> Some x | _ \<Rightarrow> None) fc)"

text \<open>\<open>distinct\<close> keeps the first occurrence of every element.\<close>

definition ee_distinct :: "'a list \<Rightarrow> 'a list" where
  "ee_distinct xs = rev (remdups (rev xs))"

definition filter_eq :: "featureCollection \<Rightarrow> string \<Rightarrow> val \<Rightarrow> featureCollection" where
  "filter_eq fc k v = filter (\<lambda>f. properties f k = Some v) fc"

text \<open>Sorting by a string property, ascending.\<close>

definition stringProperty :: "feature \<Rightarrow> string \<Rightarrow> string" where
  "stringProperty f k = (case properties f k of Some (Str s) \<Rightarrow> s | _ \<Rightarrow> [])"

definition fc_sort :: "featureCollection \<Rightarrow> string \<Rightarrow> featureCollection" where
  "fc_sort fc k = sort_key (\<lambda>f. stringProperty f k) fc"

section \<open>Landslide script: statistics\<close>

record riskWeights =
  low :: real
  medium :: real
  high :: real
  veryHigh :: real

definition CONFIG_riskWeights :: riskWeights where
  "CONFIG_riskWeights = \<lparr>low = 1, medium = 2, high = 3, veryHigh = 4\<rparr>"

text \<open>The multi-band image built at the head of \<open>calculateLLGStatistics\<close>.\<close>

definition riskMultiband :: "image \<Rightarrow> image \<Rightarrow> multiband" where
  "riskMultiband population riskMap =
     [(''total_pop'', population),
      (''low_pop'', img_updateMask population (img_eq riskMap 1)),
      (''medium_pop'', img_updateMask population (img_eq riskMap 2)),
      (''high_pop'', img_updateMask population (img_eq riskMap 3)),
      (''very_high_pop'', img_updateMask population (img_eq riskMap 4))]"

text \<open>
  The body of the function mapped over the zones, from the reducer's dictionary on.
\<close>

definition llgRiskRecord :: "(string \<rightharpoonup> real) \<Rightarrow> feature \<Rightarrow> feature option" where
  "llgRiskRecord stats feature =
     (let totalPop = ee_round (nullProtect (stats ''total_pop''));
          lowRiskPop = ee_round (nullProtect (stats ''low_pop''));
          mediumRiskPop = ee_round (nullProtect (stats ''medium_pop''));
          highRiskPop = ee_round (nullProtect (stats ''high_pop''));
          veryHighRiskPop = ee_round (nullProtect (stats ''very_high_pop''));
          safePop = (if totalPop > 0 then totalPop else 1)
      in do {
        lowRiskRatio \<leftarrow> ee_divide lowRiskPop safePop;
        mediumRiskRatio \<leftarrow> ee_divide mediumRiskPop safePop;
        highRiskRatio \<leftarrow> ee_divide highRiskPop safePop;
        veryHighRiskRatio \<leftarrow> ee_divide veryHighRiskPop safePop;
        let riskScore = lowRiskRatio * low CONFIG_riskWeights
          + mediumRiskRatio * medium CONFIG_riskWeights
          + highRiskRatio * high CONFIG_riskWeights
          + veryHighRiskRatio * veryHigh CONFIG_riskWeights;
        Some (feature_set feature
          [(''LLG_Population'', Num totalPop),
           (''Low_Risk_Population'', Num lowRiskPop),
           (''Medium_Risk_Population'', Num mediumRiskPop),
           (''High_Risk_Population'', Num highRiskPop),
           (''Very_High_Risk_Population'', Num veryHighRiskPop),
           (''Low_Risk_Ratio'', Num lowRiskRatio),
           (''Medium_Risk_Ratio'', Num mediumRiskRatio),
           (''High_Risk_Ratio'', Num highRiskRatio),
           (''Very_High_Risk_Ratio'', Num veryHighRiskRatio),
           (''Risk_Score'', Num riskScore)])
      })"

text \<open>A failure in one zone's record fails the mapped collection.\<close>

definition calculateLLGStatistics_landslide ::
  "featureCollection \<Rightarrow> image \<Rightarrow> image \<Rightarrow> featureCollection option" where
  "calculateLLGStatistics_landslide boundaries population riskMap =
     (let multiband = riskMultiband population riskMap
      in those (map (\<lambda>feature.
           let stats = reduceRegion multiband (geometry feature)
           in llgRiskRecord stats feature) boundaries))"

definition provinceRiskRecord :: "featureCollection \<Rightarrow> val \<Rightarrow> feature option" where
  "provinceRiskRecord llgStats provinceName =
     (let filtered = filter_eq llgStats ''ADM1_EN'' provinceName;
          totalPop = aggregate_sum filtered ''LLG_Population'';
          lowRiskPop = aggregate_sum filtered ''Low_Risk_Population'';
          mediumRiskPop = aggregate_sum filtered ''Medium_Risk_Population'';
          highRiskPop = aggregate_sum filtered ''High_Risk_Population'';
          veryHighRiskPop = aggregate_sum filtered ''Very_High_Risk_Population'';
          totalRiskScore = aggregate_sum filtered ''Risk_Score'';
          llgCount = real (length filtered)
      in do {
        avgRiskScore \<leftarrow> (if llgCount > 0 then ee_divide totalRiskScore llgCount else Some 0);
        Some (ee_Feature_null
          [(''Province'', provinceName),
           (''Total_Population'', Num totalPop),
           (''Low_Risk_Population'', Num lowRiskPop),
           (''Medium_Risk_Population'', Num mediumRiskPop),
           (''High_Risk_Population'', Num highRiskPop),
           (''Very_High_Risk_Population'', Num veryHighRiskPop),
           (''Total_Risk_Score'', Num totalRiskScore),
           (''Average_Risk_Score'', Num avgRiskScore),
           (''LLG_Count'', Num llgCount)])
      })"

definition aggregateToProvinceLevel_landslide ::
  "featureCollection \<Rightarrow> featureCollection option" where
  "aggregateToProvinceLevel_landslide llgStats =
     (let provinces = ee_distinct (aggregate_array llgStats ''ADM1_EN'')
      in do {
        provinceStats \<leftarrow> those (map (provinceRiskRecord llgStats) provinces);
        Some (fc_sort provinceStats ''Province'')
      })"

record riskTotals =
  lowTotal :: real
  mediumTotal :: real
  highTotal :: real
  veryHighTotal :: real

definition calculateNationalRiskTotals :: "image \<Rightarrow> image \<Rightarrow> cell list \<Rightarrow> riskTotals" where
  "calculateNationalRiskTotals population riskMap region =
     (let multiband =
            [(''low'', img_updateMask population (img_eq riskMap 1)),
             (''medium'', img_updateMask population (img_eq riskMap 2)),
             (''high'', img_updateMask population (img_eq riskMap 3)),
             (''very_high'', img_updateMask population (img_eq riskMap 4))];
          stats = reduceRegion multiband region
      in \<lparr>lowTotal = ee_round (nullProtect (stats ''low'')),
          mediumTotal = ee_round (nullProtect (stats ''medium'')),
          highTotal = ee_round (nullProtect (stats ''high'')),
          veryHighTotal = ee_round (nullProtect (stats ''very_high''))\<rparr>)"

section \<open>Riverine flood script\<close>

definition createFloodMask :: "image \<Rightarrow> image" where
  "createFloodMask floodImage = img_selfMask (img_gt floodImage 0)"

definition calculateExposedPopulation :: "image \<Rightarrow> image \<Rightarrow> image" where
  "calculateExposedPopulation population floodMask = img_updateMask population floodMask"

definition floodMultiband :: "image \<Rightarrow> image \<Rightarrow> image \<Rightarrow> multiband" where
  "floodMultiband population exposedPop floodMask =
     [(''total_pop'', population),
      (''exposed_pop'', exposedPop),
      (''flood_area'', floodMask)]"

definition llgFloodRecord :: "(string \<rightharpoonup> real) \<Rightarrow> feature \<Rightarrow> feature option" where
  "llgFloodRecord stats feature =
     (let totalPop = ee_round (nullProtect (stats ''total_pop''));
          exposedPopCount = ee_round (nullProtect (stats ''exposed_pop''));
          floodPixels = nullProtect (stats ''flood_area'')
      in do {
        floodAreaKm2 \<leftarrow> ee_divide (floodPixels * 900) 1000000;
        exposureRatio \<leftarrow>
          (if totalPop > 0 then ee_divide exposedPopCount totalPop else Some 0);
        exposureDensity \<leftarrow>
          (if floodAreaKm2 > 0 then ee_divide exposedPopCount floodAreaKm2 else Some 0);
        Some (feature_set feature
          [(''LLG_Population'', Num totalPop),
           (''Exposed_Population'', Num exposedPopCount),
           (''Flood_Area_km2'', Num floodAreaKm2),
           (''Exposure_Ratio'', Num exposureRatio),
           (''Exposure_Density'', Num exposureDensity)])
      })"

definition calculateLLGStatistics_flood ::
  "featureCollection \<Rightarrow> image \<Rightarrow> image \<Rightarrow> image \<Rightarrow> featureCollection option" where
  "calculateLLGStatistics_flood boundaries population exposedPop floodMask =
     (let multiband = floodMultiband population exposedPop floodMask
      in those (map (\<lambda>feature.
           let stats = reduceRegion multiband (geometry feature)
           in llgFloodRecord stats feature) boundaries))"

definition provinceFloodRecord :: "featureCollection \<Rightarrow> val \<Rightarrow> feature option" where
  "provinceFloodRecord llgStats provinceName =
     (let filtered = filter_eq llgStats ''ADM1_EN'' provinceName;
          totalPop = aggregate_sum filtered ''LLG_Population'';
          exposedPop = aggregate_sum filtered ''Exposed_Population'';
          floodArea = aggregate_sum filtered ''Flood_Area_km2''
      in do {
        exposureRatio \<leftarrow>
          (if totalPop > 0 then ee_divide exposedPop totalPop else Some 0);
        exposureDensity \<leftarrow>
          (if floodArea > 0 then ee_divide exposedPop floodArea else Some 0);
        Some (ee_Feature_null
          [(''Province'', provinceName),
           (''Total_Population'', Num totalPop),
           (''Exposed_Population'', Num exposedPop),
           (''Flood_Area_km2'', Num floodArea),
           (''Exposure_Ratio'', Num exposureRatio),
           (''Exposure_Density'', Num exposureDensity)])
      })"

definition aggregateToProvinceLevel_flood ::
  "featureCollection \<Rightarrow> featureCollection option" where
  "aggregateToProvinceLevel_flood llgStats =
     (let provinces = ee_distinct (aggregate_array llgStats ''ADM1_EN'')
      in do {
        provinceStats \<leftarrow> those (map (provinceFloodRecord llgStats) provinces);
        Some (fc_sort provinceStats ''Province'')
      })"

definition calculateNationalExposure :: "featureCollection \<Rightarrow> real" where
  "calculateNationalExposure llgStats = aggregate_sum llgStats ''Exposed_Population''"

text \<open>The flood script's run: mask, exposed population, zone statistics.\<close>

definition flood_llg_stats :: "featureCollection \<Rightarrow> image \<Rightarrow> image \<Rightarrow> featureCollection option" where
  "flood_llg_stats llg_boundaries HRSL_general floodDepth =
     (let floodMask = createFloodMask floodDepth;
          exposedPopulation = calculateExposedPopulation HRSL_general floodMask
      in calculateLLGStatistics_flood llg_boundaries HRSL_general exposedPopulation floodMask)"

section \<open>Quantities the properties speak about\<close>

text \<open>
  The value a pixel contributes to a sum (nothing when masked), the sum of a band over a
  region, the population layer of one tier as the statistics build it, the cells that
  lie in one of the four tiers, and a population band without negative pixels on a
  region.
\<close>

definition pixelValue :: "pixel \<Rightarrow> real" where
  "pixelValue p = (case p of Some v \<Rightarrow> v | None \<Rightarrow> 0)"

definition zoneSum :: "image \<Rightarrow> cell list \<Rightarrow> real" where
  "zoneSum img region = sum_list (map (\<lambda>c. pixelValue (img c)) region)"

abbreviation tierLayer :: "image \<Rightarrow> image \<Rightarrow> real \<Rightarrow> image" where
  "tierLayer population riskMap k \<equiv> img_updateMask population (img_eq riskMap k)"

definition inSomeTier :: "image \<Rightarrow> cell \<Rightarrow> bool" where
  "inSomeTier riskMap c = (riskMap c \<in> {Some 1, Some 2, Some 3, Some 4})"

definition nonnegOn :: "image \<Rightarrow> cell list \<Rightarrow> bool" where
  "nonnegOn population region = (\<forall>c \<in> set region. 0 \<le> pixelValue (population c))"

section \<open>A small study area\<close>

text \<open>
  Five zones of two provinces over ten cells, with population and risk rasters, used
  to run the definitions on concrete data.
\<close>

definition demoZones :: featureCollection where
  "demoZones =
     [\<lparr>fid = ''llg-1'', geometry = [0, 1],
        properties = [''ADM1_EN'' \<mapsto> Str ''A'', ''LLG_NAME'' \<mapsto> Str ''Alpha'']\<rparr>,
      \<lparr>fid = ''llg-2'', geometry = [2, 3, 4],
        properties = [''ADM1_EN'' \<mapsto> Str ''A'', ''LLG_NAME'' \<mapsto> Str ''Beta'']\<rparr>,
      \<lparr>fid = ''llg-3'', geometry = [5, 6],
        properties = [''ADM1_EN'' \<mapsto> Str ''B'', ''LLG_NAME'' \<mapsto> Str ''Gamma'']\<rparr>,
      \<lparr>fid = ''llg-4'', geometry = [7, 8],
        properties = [''ADM1_EN'' \<mapsto> Str ''B'', ''LLG_NAME'' \<mapsto> Str ''Delta'']\<rparr>,
      \<lparr>fid = ''llg-5'', geometry = [9],
        properties = [''ADM1_EN'' \<mapsto> Str ''B'', ''LLG_NAME'' \<mapsto> Str ''Epsilon'']\<rparr>]"

definition demoPopulation :: image where
  "demoPopulation = (\<lambda>c.
     if c = 0 then Some (5/8) else if c = 1 then Some (5/8)
     else if c = 2 then Some (3/4) else if c = 3 then Some (3/4) else if c = 4 then Some (3/4)
     else if c = 5 then Some 100 else if c = 7 then Some 3 else if c = 8 then Some 2
     else None)"

definition demoRisk :: image where
  "demoRisk = (\<lambda>c.
     if c = 0 then Some 1 else if c = 1 then Some 4
     else if c = 2 then Some 2 else if c = 3 then Some 3 else if c = 4 then Some 4
     else if c = 7 then Some 2 else if c = 8 then Some 4 else None)"

abbreviation demoLlgStats :: featureCollection where
  "demoLlgStats \<equiv> the (calculateLLGStatistics_landslide demoZones demoPopulation demoRisk)"

definition demoFloodDepth :: image where
  "demoFloodDepth = (\<lambda>c.
     if c = 0 then Some (1/2) else if c = 1 then Some 0
     else if c = 5 then Some 2 else if c = 7 then Some (3/2) else if c = 9 then Some 1
     else None)"

abbreviation demoFloodStats :: featureCollection where
  "demoFloodStats \<equiv> the (flood_llg_stats demoZones demoPopulation demoFloodDepth)"

text \<open>The property names the two statistics functions write.\<close>

definition riskStatKeys :: "string list" where
  "riskStatKeys =
     [''LLG_Population'', ''Low_Risk_Population'', ''Medium_Risk_Population'',
      ''High_Risk_Population'', ''Very_High_Risk_Population'', ''Low_Risk_Ratio'',
      ''Medium_Risk_Ratio'', ''High_Risk_Ratio'', ''Very_High_Risk_Ratio'', ''Risk_Score'']"

definition floodStatKeys :: "string list" where
  "floodStatKeys =
     [''LLG_Population'', ''Exposed_Population'', ''Flood_Area_km2'', ''Exposure_Ratio'',
      ''Exposure_Density'']"

text \<open>
  Zone statistics of three zones, two in province A and one in province B, as either
  script may have produced them.
\<close>

definition scenarioStats :: featureCollection where
  "scenarioStats =
     [\<lparr>fid = ''0'', geometry = [0],
        properties = [''ADM1_EN'' \<mapsto> Str ''B'', ''LLG_Population'' \<mapsto> Num 200,
          ''Exposed_Population'' \<mapsto> Num 0, ''Flood_Area_km2'' \<mapsto> Num 0,
          ''Low_Risk_Population'' \<mapsto> Num 0, ''Risk_Score'' \<mapsto> Num 0]\<rparr>,
      \<lparr>fid = ''1'', geometry = [1],
        properties = [''ADM1_EN'' \<mapsto> Str ''A'', ''LLG_Population'' \<mapsto> Num 100,
          ''Exposed_Population'' \<mapsto> Num 10, ''Flood_Area_km2'' \<mapsto> Num 2,
          ''Low_Risk_Population'' \<mapsto> Num 10, ''Risk_Score'' \<mapsto> Num (1/10)]\<rparr>,
      \<lparr>fid = ''2'', geometry = [2],
        properties = [''ADM1_EN'' \<mapsto> Str ''A'', ''LLG_Population'' \<mapsto> Num 50,
          ''Exposed_Population'' \<mapsto> Num 50, ''Flood_Area_km2'' \<mapsto> Num 3,
          ''Low_Risk_Population'' \<mapsto> Num 50, ''Risk_Score'' \<mapsto> Num 1]\<rparr>]"

abbreviation scenarioFloodProvinces :: featureCollection where
  "scenarioFloodProvinces \<equiv> the (aggregateToProvinceLevel_flood scenarioStats)"

abbreviation scenarioRiskProvinces :: featureCollection where
  "scenarioRiskProvinces \<equiv> the (aggregateToProvinceLevel_landslide scenarioStats)"

text \<open>The demo study area: all ten cells, each in exactly one zone.\<close>

definition demoRegion :: "cell list" where
  "demoRegion = [0, 1, 2, 3, 4, 5, 6, 7, 8, 9]"

abbreviation demoNational :: riskTotals where
  "demoNational \<equiv> calculateNationalRiskTotals demoPopulation demoRisk demoRegion"

section \<open>Properties of the hazard fusion\<close>

lemma maskValidRiskLevels_cell:
  "maskValidRiskLevels img c = (if validTrigger img c then img c else None)"
  by (simp add: maskValidRiskLevels_def img_updateMask_def img_and_def img_gte_def
      img_lte_def validTrigger_def split: option.splits)

lemma combineLandslideHazards_cell:
  "combineLandslideHazards eq pr c =
     (if validTrigger eq c \<and> validTrigger pr c
      then Some (max (the (eq c)) (the (pr c))) else None)"
  by (simp add: combineLandslideHazards_def img_max_def maskValidRiskLevels_cell
      validTrigger_def split: option.splits)

lemma reclassifyRisk_cell:
  "reclassifyRisk img c = map_option (\<lambda>v.
      if 7 \<le> v \<and> v \<le> 8 then 4
      else if 5 \<le> v \<and> v \<le> 6 then 3
      else if 3 \<le> v \<and> v \<le> 4 then 2
      else if 1 \<le> v \<and> v \<le> 2 then 1 else v) (img c)"
  by (simp add: reclassifyRisk_def img_where_def img_and_def img_gte_def img_lte_def
      split: option.splits)

text \<open>
  What the fusion does guarantee: where both triggers are valid the fused pixel is the
  larger of the two values, hence at least each of them; at every other cell the fused
  pixel is "no data".
\<close>

lemma combineLandslideHazards_both_valid_max:
  "(validTrigger eq c \<and> validTrigger pr c \<longrightarrow>
      (\<exists>a b. eq c = Some a \<and> pr c = Some b
        \<and> combineLandslideHazards eq pr c = Some (max a b)
        \<and> a \<le> max a b \<and> b \<le> max a b))
   \<and> (\<not> (validTrigger eq c \<and> validTrigger pr c) \<longrightarrow>
        combineLandslideHazards eq pr c = None)"
  by (auto simp: combineLandslideHazards_cell validTrigger_def split: option.splits)

text \<open>
  C1: the fused value is to be the maximum over the triggers that are valid at a cell, so
  a cell valid in one trigger only is to carry that trigger's value.  The code departs
  from this.  With earthquake level 5 and a precipitation pixel that is masked, or that
  holds 0 (outside 1..8), exactly one trigger is valid and the fused pixel is "no data",
  not 5.
\<close>

theorem combineLandslideHazards_one_valid_masked:
  "validTrigger (\<lambda>_. Some 5) 0
   \<and> \<not> validTrigger (\<lambda>_. None) 0 \<and> \<not> validTrigger (\<lambda>_. Some 0) 0
   \<and> combineLandslideHazards (\<lambda>_. Some 5) (\<lambda>_. None) 0 = None
   \<and> combineLandslideHazards (\<lambda>_. Some 5) (\<lambda>_. Some 0) 0 = None"
  by (simp add: combineLandslideHazards_cell validTrigger_def)

text \<open>
  C7 (as the code has it): the reclassification sends the integer levels 1..8 to
  1, 1, 2, 2, 3, 3, 4, 4.  On a pixel that already holds a tier 1..4 it is therefore the
  identity only at tier 1.
\<close>

theorem reclassifyRisk_halves:
  "(img c = Some (real n) \<and> 1 \<le> n \<and> n \<le> 8 \<longrightarrow>
      reclassifyRisk img c = Some (real ((n + 1) div 2)))
   \<and> (img c = Some (real n) \<and> 1 \<le> n \<and> n \<le> 4 \<longrightarrow>
      (reclassifyRisk img c = img c \<longleftrightarrow> n = 1))
   \<and> (img c = None \<longrightarrow> reclassifyRisk img c = None)"
proof -
  have levels: "n \<in> {1, 2, 3, 4, 5, 6, 7, 8}" if "1 \<le> n" "n \<le> 8"
    using that by auto
  show ?thesis
    using levels by (auto simp: reclassifyRisk_cell)
qed

theorem reclassifyRisk_halves_witness:
  "reclassifyRisk (\<lambda>_. Some (real 6)) 0 = Some (real ((6 + 1) div 2))
   \<and> reclassifyRisk (\<lambda>_. Some (real 1)) 0 = Some (real 1)
   \<and> reclassifyRisk (\<lambda>_. Some (real 4)) 0 \<noteq> Some (real 4)"
  using reclassifyRisk_halves [of "\<lambda>_. Some (real 6)" 0 6]
    reclassifyRisk_halves [of "\<lambda>_. Some (real 1)" 0 1]
    reclassifyRisk_halves [of "\<lambda>_. Some (real 4)" 0 4]
  by simp

text \<open>
  Idempotence fails on an already 4-tier raster: tiers 2, 3 and 4 come back as 1, 2
  and 2.
\<close>

theorem reclassifyRisk_identity_counterexample:
  "reclassifyRisk (\<lambda>_. Some 2) 0 = Some 1
   \<and> reclassifyRisk (\<lambda>_. Some 3) 0 = Some 2
   \<and> reclassifyRisk (\<lambda>_. Some 4) 0 = Some 2"
  by (simp add: reclassifyRisk_cell)

section \<open>Zonal sums and the per-zone record\<close>

lemma sum_list_map_filter_pixel:
  "sum_list (List.map_filter img region) = zoneSum img region"
  by (induction region) (simp_all add: zoneSum_def pixelValue_def split: option.splits)

lemma nullProtect_reduceSum: "nullProtect (reduceSum img region) = zoneSum img region"
proof -
  have "List.map_filter img region = [] \<Longrightarrow> zoneSum img region = 0"
    using sum_list_map_filter_pixel [of img region] by simp
  then show ?thesis
    by (auto simp: nullProtect_def reduceSum_def Let_def sum_list_map_filter_pixel)
qed

lemma those_map_Some:
  "(\<And>x. x \<in> set xs \<Longrightarrow> f x = Some (g x)) \<Longrightarrow> those (map f xs) = Some (map g xs)"
  by (induction xs) simp_all

lemma sum_list_pointwise_le:
  fixes f g :: "'a \<Rightarrow> real"
  assumes "\<And>x. x \<in> set xs \<Longrightarrow> f x \<le> g x"
  shows "sum_list (map f xs) \<le> sum_list (map g xs)
     \<and> (sum_list (map f xs) = sum_list (map g xs) \<longleftrightarrow> (\<forall>x \<in> set xs. f x = g x))"
  using assms
proof (induction xs)
  case Nil
  then show ?case by simp
next
  case (Cons a xs)
  have a: "f a \<le> g a" using Cons.prems by simp
  have ih: "sum_list (map f xs) \<le> sum_list (map g xs)"
    "sum_list (map f xs) = sum_list (map g xs) \<longleftrightarrow> (\<forall>x \<in> set xs. f x = g x)"
    using Cons by simp_all
  show ?case
  proof (cases "f a = g a")
    case True
    then show ?thesis using ih by simp
  next
    case False
    then have "f a < g a" using a by simp
    then show ?thesis using ih(1) False by auto
  qed
qed

lemma tierLayer_pixel:
  "pixelValue (tierLayer population riskMap k c)
     = (if riskMap c = Some k then pixelValue (population c) else 0)"
  by (simp add: img_updateMask_def img_eq_def pixelValue_def split: option.splits)

lemma tier_sum_cells:
  "zoneSum (tierLayer population riskMap 1) g + zoneSum (tierLayer population riskMap 2) g
   + zoneSum (tierLayer population riskMap 3) g + zoneSum (tierLayer population riskMap 4) g
   = sum_list (map (\<lambda>c. if inSomeTier riskMap c then pixelValue (population c) else 0) g)"
  by (induction g) (auto simp: zoneSum_def tierLayer_pixel inSomeTier_def)

lemma tier_sum_le_total:
  assumes "nonnegOn population g"
  shows "zoneSum (tierLayer population riskMap 1) g + zoneSum (tierLayer population riskMap 2) g
   + zoneSum (tierLayer population riskMap 3) g + zoneSum (tierLayer population riskMap 4) g
   \<le> zoneSum population g"
   and "zoneSum (tierLayer population riskMap 1) g + zoneSum (tierLayer population riskMap 2) g
   + zoneSum (tierLayer population riskMap 3) g + zoneSum (tierLayer population riskMap 4) g
   = zoneSum population g
   \<longleftrightarrow> (\<forall>c \<in> set g. 0 < pixelValue (population c) \<longrightarrow> inSomeTier riskMap c)"
proof -
  let ?f = "\<lambda>c. if inSomeTier riskMap c then pixelValue (population c) else 0"
  let ?g = "\<lambda>c. pixelValue (population c)"
  have le: "\<And>c. c \<in> set g \<Longrightarrow> ?f c \<le> ?g c"
    using assms by (simp add: nonnegOn_def)
  note P = sum_list_pointwise_le [of g ?f ?g, OF le]
  show "zoneSum (tierLayer population riskMap 1) g + zoneSum (tierLayer population riskMap 2) g
   + zoneSum (tierLayer population riskMap 3) g + zoneSum (tierLayer population riskMap 4) g
   \<le> zoneSum population g"
    unfolding tier_sum_cells using P by (simp add: zoneSum_def)
  have "\<And>c. c \<in> set g \<Longrightarrow>
      (?f c = ?g c) = (0 < pixelValue (population c) \<longrightarrow> inSomeTier riskMap c)"
    using assms by (auto simp: nonnegOn_def less_le)
  then have "(\<forall>c \<in> set g. ?f c = ?g c)
     \<longleftrightarrow> (\<forall>c \<in> set g. 0 < pixelValue (population c) \<longrightarrow> inSomeTier riskMap c)"
    by (intro ball_cong refl)
  then show "zoneSum (tierLayer population riskMap 1) g + zoneSum (tierLayer population riskMap 2) g
   + zoneSum (tierLayer population riskMap 3) g + zoneSum (tierLayer population riskMap 4) g
   = zoneSum population g
   \<longleftrightarrow> (\<forall>c \<in> set g. 0 < pixelValue (population c) \<longrightarrow> inSomeTier riskMap c)"
    unfolding tier_sum_cells using P by (simp add: zoneSum_def)
qed

lemma tier_zoneSum_bounds:
  assumes "nonnegOn population g"
  shows "0 \<le> zoneSum (tierLayer population riskMap k) g"
    and "zoneSum (tierLayer population riskMap k) g \<le> zoneSum population g"
proof -
  have "sum_list (map (\<lambda>c. 0::real) g) \<le> sum_list (map (\<lambda>c. pixelValue (tierLayer population riskMap k c)) g)"
    using sum_list_pointwise_le [of g "\<lambda>c. 0" "\<lambda>c. pixelValue (tierLayer population riskMap k c)"] assms
    by (simp add: tierLayer_pixel nonnegOn_def)
  then show "0 \<le> zoneSum (tierLayer population riskMap k) g"
    by (simp add: zoneSum_def)
  show "zoneSum (tierLayer population riskMap k) g \<le> zoneSum population g"
    using sum_list_pointwise_le [of g "\<lambda>c. pixelValue (tierLayer population riskMap k c)" "\<lambda>c. pixelValue (population c)"] assms
    by (simp add: tierLayer_pixel nonnegOn_def zoneSum_def)
qed

lemma round_sum4_le:
  fixes a b c d t :: real
  assumes "a + b + c + d \<le> t"
  shows "ee_round a + ee_round b + ee_round c + ee_round d \<le> ee_round t + 2"
proof -
  have "real_of_int (round a + round b + round c + round d) \<le> a + b + c + d + 2"
    using of_int_round_le [of a] of_int_round_le [of b] of_int_round_le [of c]
      of_int_round_le [of d] by simp
  also have "\<dots> \<le> t + 2" using assms by simp
  also have "\<dots> < real_of_int (round t) + 3"
    using of_int_round_gt [of t] by simp
  finally have "real_of_int (round a + round b + round c + round d) < real_of_int (round t + 3)"
    by simp
  then have "round a + round b + round c + round d < round t + 3"
    by (simp only: of_int_less_iff)
  then have "round a + round b + round c + round d \<le> round t + 2" by simp
  then have "real_of_int (round a + round b + round c + round d) \<le> real_of_int (round t + 2)"
    by (simp only: of_int_le_iff)
  then show ?thesis by (simp add: ee_round_def)
qed


lemma those_nth:
  "those xs = Some ys \<Longrightarrow> length ys = length xs \<and> (\<forall>i < length xs. xs ! i = Some (ys ! i))"
proof (induction xs arbitrary: ys)
  case Nil
  then show ?case by simp
next
  case (Cons x xs)
  then obtain y zs where x: "x = Some y" and zs: "those xs = Some zs" and ys: "ys = y # zs"
    by (auto split: option.splits)
  from Cons.IH [OF zs] show ?case
    by (auto simp: x ys nth_Cons split: nat.splits)
qed

lemma llgRiskRecord_Some:
  "llgRiskRecord stats feature = Some (feature_set feature
     (let totalPop = ee_round (nullProtect (stats ''total_pop''));
          lowRiskPop = ee_round (nullProtect (stats ''low_pop''));
          mediumRiskPop = ee_round (nullProtect (stats ''medium_pop''));
          highRiskPop = ee_round (nullProtect (stats ''high_pop''));
          veryHighRiskPop = ee_round (nullProtect (stats ''very_high_pop''));
          safePop = (if totalPop > 0 then totalPop else 1)
      in [(''LLG_Population'', Num totalPop),
           (''Low_Risk_Population'', Num lowRiskPop),
           (''Medium_Risk_Population'', Num mediumRiskPop),
           (''High_Risk_Population'', Num highRiskPop),
           (''Very_High_Risk_Population'', Num veryHighRiskPop),
           (''Low_Risk_Ratio'', Num (lowRiskPop / safePop)),
           (''Medium_Risk_Ratio'', Num (mediumRiskPop / safePop)),
           (''High_Risk_Ratio'', Num (highRiskPop / safePop)),
           (''Very_High_Risk_Ratio'', Num (veryHighRiskPop / safePop)),
           (''Risk_Score'', Num (lowRiskPop / safePop * 1 + mediumRiskPop / safePop * 2
              + highRiskPop / safePop * 3 + veryHighRiskPop / safePop * 4))]))"
  by (simp add: llgRiskRecord_def Let_def ee_divide_def CONFIG_riskWeights_def)

lemma llgRiskRecord_values:
  assumes "llgRiskRecord stats feature = Some r"
  defines "T \<equiv> ee_round (nullProtect (stats ''total_pop''))"
  defines "S \<equiv> (if T > 0 then T else 1)"
  shows "numProperty r ''LLG_Population'' = T"
    and "numProperty r ''Low_Risk_Population'' = ee_round (nullProtect (stats ''low_pop''))"
    and "numProperty r ''Medium_Risk_Population'' = ee_round (nullProtect (stats ''medium_pop''))"
    and "numProperty r ''High_Risk_Population'' = ee_round (nullProtect (stats ''high_pop''))"
    and "numProperty r ''Very_High_Risk_Population'' = ee_round (nullProtect (stats ''very_high_pop''))"
    and "numProperty r ''Low_Risk_Ratio'' = ee_round (nullProtect (stats ''low_pop'')) / S"
    and "numProperty r ''Medium_Risk_Ratio'' = ee_round (nullProtect (stats ''medium_pop'')) / S"
    and "numProperty r ''High_Risk_Ratio'' = ee_round (nullProtect (stats ''high_pop'')) / S"
    and "numProperty r ''Very_High_Risk_Ratio'' = ee_round (nullProtect (stats ''very_high_pop'')) / S"
    and "numProperty r ''Risk_Score'' =
          ee_round (nullProtect (stats ''low_pop'')) / S * 1
        + ee_round (nullProtect (stats ''medium_pop'')) / S * 2
        + ee_round (nullProtect (stats ''high_pop'')) / S * 3
        + ee_round (nullProtect (stats ''very_high_pop'')) / S * 4"
  using assms(1) unfolding llgRiskRecord_Some T_def S_def
  by (auto simp: numProperty_def feature_set_def Let_def)

lemma riskMultiband_stats:
  "nullProtect (reduceRegion (riskMultiband population riskMap) g ''total_pop'') = zoneSum population g"
  "nullProtect (reduceRegion (riskMultiband population riskMap) g ''low_pop'') = zoneSum (tierLayer population riskMap 1) g"
  "nullProtect (reduceRegion (riskMultiband population riskMap) g ''medium_pop'') = zoneSum (tierLayer population riskMap 2) g"
  "nullProtect (reduceRegion (riskMultiband population riskMap) g ''high_pop'') = zoneSum (tierLayer population riskMap 3) g"
  "nullProtect (reduceRegion (riskMultiband population riskMap) g ''very_high_pop'') = zoneSum (tierLayer population riskMap 4) g"
  by (simp_all add: reduceRegion_def riskMultiband_def nullProtect_reduceSum)

lemma llgRiskRecord_total: "llgRiskRecord stats feature = Some (the (llgRiskRecord stats feature))"
  by (simp add: llgRiskRecord_Some)

lemma calculateLLGStatistics_landslide_total:
  "calculateLLGStatistics_landslide boundaries population riskMap =
     Some (map (\<lambda>feature. the (llgRiskRecord
       (reduceRegion (riskMultiband population riskMap) (geometry feature)) feature)) boundaries)"
  unfolding calculateLLGStatistics_landslide_def Let_def
  by (rule those_map_Some) (rule llgRiskRecord_total)

lemma calculateLLGStatistics_landslide_nth:
  assumes "calculateLLGStatistics_landslide boundaries population riskMap = Some llgStats"
  shows "length llgStats = length boundaries"
    and "i < length boundaries \<Longrightarrow>
      llgRiskRecord (reduceRegion (riskMultiband population riskMap) (geometry (boundaries ! i)))
        (boundaries ! i) = Some (llgStats ! i)"
  using those_nth [OF assms [unfolded calculateLLGStatistics_landslide_def Let_def]]
  by simp_all


lemma zone_risk_counts:
  assumes "calculateLLGStatistics_landslide boundaries population riskMap = Some llgStats"
    and "i < length boundaries"
  defines "g \<equiv> geometry (boundaries ! i)"
  shows "numProperty (llgStats ! i) ''LLG_Population'' = ee_round (zoneSum population g)"
    and "numProperty (llgStats ! i) ''Low_Risk_Population''
          = ee_round (zoneSum (tierLayer population riskMap 1) g)"
    and "numProperty (llgStats ! i) ''Medium_Risk_Population''
          = ee_round (zoneSum (tierLayer population riskMap 2) g)"
    and "numProperty (llgStats ! i) ''High_Risk_Population''
          = ee_round (zoneSum (tierLayer population riskMap 3) g)"
    and "numProperty (llgStats ! i) ''Very_High_Risk_Population''
          = ee_round (zoneSum (tierLayer population riskMap 4) g)"
  using llgRiskRecord_values(1-5) [OF calculateLLGStatistics_landslide_nth(2) [OF assms(1,2)]]
  by (simp_all add: riskMultiband_stats g_def)

lemma zone_risk_ratios:
  assumes "calculateLLGStatistics_landslide boundaries population riskMap = Some llgStats"
    and "i < length boundaries"
  defines "r \<equiv> llgStats ! i"
  defines "S \<equiv> (if numProperty r ''LLG_Population'' > 0 then numProperty r ''LLG_Population'' else 1)"
  shows "numProperty r ''Low_Risk_Ratio'' = numProperty r ''Low_Risk_Population'' / S"
    and "numProperty r ''Medium_Risk_Ratio'' = numProperty r ''Medium_Risk_Population'' / S"
    and "numProperty r ''High_Risk_Ratio'' = numProperty r ''High_Risk_Population'' / S"
    and "numProperty r ''Very_High_Risk_Ratio'' = numProperty r ''Very_High_Risk_Population'' / S"
    and "numProperty r ''Risk_Score'' =
          numProperty r ''Low_Risk_Ratio'' * 1 + numProperty r ''Medium_Risk_Ratio'' * 2
        + numProperty r ''High_Risk_Ratio'' * 3 + numProperty r ''Very_High_Risk_Ratio'' * 4"
  using llgRiskRecord_values [OF calculateLLGStatistics_landslide_nth(2) [OF assms(1,2)]]
  by (simp_all add: r_def S_def)

lemma ee_round_mono: "x \<le> y \<Longrightarrow> ee_round x \<le> ee_round y"
  by (simp add: ee_round_def round_mono)

lemma ee_round_0: "ee_round 0 = 0"
  by (simp add: ee_round_def)

lemma zone_risk_bounds:
  assumes "calculateLLGStatistics_landslide boundaries population riskMap = Some llgStats"
    and "i < length boundaries"
    and "nonnegOn population (geometry (boundaries ! i))"
  defines "r \<equiv> llgStats ! i"
  shows "0 \<le> numProperty r ''Low_Risk_Population''"
    and "0 \<le> numProperty r ''Medium_Risk_Population''"
    and "0 \<le> numProperty r ''High_Risk_Population''"
    and "0 \<le> numProperty r ''Very_High_Risk_Population''"
    and "numProperty r ''Low_Risk_Population'' \<le> numProperty r ''LLG_Population''"
    and "numProperty r ''Medium_Risk_Population'' \<le> numProperty r ''LLG_Population''"
    and "numProperty r ''High_Risk_Population'' \<le> numProperty r ''LLG_Population''"
    and "numProperty r ''Very_High_Risk_Population'' \<le> numProperty r ''LLG_Population''"
    and "numProperty r ''Low_Risk_Population'' + numProperty r ''Medium_Risk_Population''
         + numProperty r ''High_Risk_Population'' + numProperty r ''Very_High_Risk_Population''
         \<le> numProperty r ''LLG_Population'' + 2"
proof -
  note c = zone_risk_counts [OF assms(1,2), folded r_def]
  note b = tier_zoneSum_bounds [OF assms(3)]
  show "0 \<le> numProperty r ''Low_Risk_Population''"
    and "0 \<le> numProperty r ''Medium_Risk_Population''"
    and "0 \<le> numProperty r ''High_Risk_Population''"
    and "0 \<le> numProperty r ''Very_High_Risk_Population''"
    unfolding c using ee_round_mono [OF b(1)] by (simp_all add: ee_round_0)
  show "numProperty r ''Low_Risk_Population'' \<le> numProperty r ''LLG_Population''"
    and "numProperty r ''Medium_Risk_Population'' \<le> numProperty r ''LLG_Population''"
    and "numProperty r ''High_Risk_Population'' \<le> numProperty r ''LLG_Population''"
    and "numProperty r ''Very_High_Risk_Population'' \<le> numProperty r ''LLG_Population''"
    unfolding c by (rule ee_round_mono [OF b(2)])+
  show "numProperty r ''Low_Risk_Population'' + numProperty r ''Medium_Risk_Population''
         + numProperty r ''High_Risk_Population'' + numProperty r ''Very_High_Risk_Population''
         \<le> numProperty r ''LLG_Population'' + 2"
    unfolding c by (rule round_sum4_le [OF tier_sum_le_total(1) [OF assms(3)]])
qed

lemma calculateLLGStatistics_landslide_the:
  "calculateLLGStatistics_landslide boundaries population riskMap
     = Some (the (calculateLLGStatistics_landslide boundaries population riskMap))"
  by (simp add: calculateLLGStatistics_landslide_total)

section \<open>The per-zone tier counts\<close>

lemmas demo_eval = zoneSum_def pixelValue_def img_updateMask_def img_eq_def demoZones_def
  demoPopulation_def demoRisk_def ee_round_def round_def

lemma demo_nonneg: "nonnegOn demoPopulation g"
  by (simp add: nonnegOn_def pixelValue_def demoPopulation_def)

lemma demo_counts0:
  "numProperty (demoLlgStats ! 0) ''LLG_Population'' = 1"
  "numProperty (demoLlgStats ! 0) ''Low_Risk_Population'' = 1"
  "numProperty (demoLlgStats ! 0) ''Medium_Risk_Population'' = 0"
  "numProperty (demoLlgStats ! 0) ''High_Risk_Population'' = 0"
  "numProperty (demoLlgStats ! 0) ''Very_High_Risk_Population'' = 1"
  using zone_risk_counts [OF calculateLLGStatistics_landslide_the, of 0 demoZones demoPopulation demoRisk]
  by (simp_all add: demo_eval)

lemma demo_counts1:
  "numProperty (demoLlgStats ! 1) ''LLG_Population'' = 2"
  "numProperty (demoLlgStats ! 1) ''Low_Risk_Population'' = 0"
  "numProperty (demoLlgStats ! 1) ''Medium_Risk_Population'' = 1"
  "numProperty (demoLlgStats ! 1) ''High_Risk_Population'' = 1"
  "numProperty (demoLlgStats ! 1) ''Very_High_Risk_Population'' = 1"
  using zone_risk_counts [OF calculateLLGStatistics_landslide_the, of 1 demoZones demoPopulation demoRisk]
  by (simp_all add: demo_eval)

lemma demo_counts2:
  "numProperty (demoLlgStats ! 2) ''LLG_Population'' = 100"
  "numProperty (demoLlgStats ! 2) ''Low_Risk_Population'' = 0"
  "numProperty (demoLlgStats ! 2) ''Medium_Risk_Population'' = 0"
  "numProperty (demoLlgStats ! 2) ''High_Risk_Population'' = 0"
  "numProperty (demoLlgStats ! 2) ''Very_High_Risk_Population'' = 0"
  using zone_risk_counts [OF calculateLLGStatistics_landslide_the, of 2 demoZones demoPopulation demoRisk]
  by (simp_all add: demo_eval)

lemma demo_counts3:
  "numProperty (demoLlgStats ! 3) ''LLG_Population'' = 5"
  "numProperty (demoLlgStats ! 3) ''Low_Risk_Population'' = 0"
  "numProperty (demoLlgStats ! 3) ''Medium_Risk_Population'' = 3"
  "numProperty (demoLlgStats ! 3) ''High_Risk_Population'' = 0"
  "numProperty (demoLlgStats ! 3) ''Very_High_Risk_Population'' = 2"
  using zone_risk_counts [OF calculateLLGStatistics_landslide_the, of 3 demoZones demoPopulation demoRisk]
  by (simp_all add: demo_eval)

lemma demo_counts4:
  "numProperty (demoLlgStats ! 4) ''LLG_Population'' = 0"
  "numProperty (demoLlgStats ! 4) ''Low_Risk_Population'' = 0"
  "numProperty (demoLlgStats ! 4) ''Medium_Risk_Population'' = 0"
  "numProperty (demoLlgStats ! 4) ''High_Risk_Population'' = 0"
  "numProperty (demoLlgStats ! 4) ''Very_High_Risk_Population'' = 0"
  using zone_risk_counts [OF calculateLLGStatistics_landslide_the, of 4 demoZones demoPopulation demoRisk]
  by (simp_all add: demo_eval)

text \<open>
  C3 (as the code has it): before rounding, the four tier sums of a zone add up to at most
  the zone's total, with equality exactly when every populated cell of the zone lies in
  one of the four tiers.  The record holds each sum rounded on its own, so the rounded
  tier counts add up to at most the rounded total plus 2.
\<close>

theorem tier_population_sum_within_two:
  assumes "calculateLLGStatistics_landslide boundaries population riskMap = Some llgStats"
    and "i < length boundaries"
    and "nonnegOn population (geometry (boundaries ! i))"
  shows "(let stats = reduceRegion (riskMultiband population riskMap) (geometry (boundaries ! i));
              tierSum = nullProtect (stats ''low_pop'') + nullProtect (stats ''medium_pop'')
                + nullProtect (stats ''high_pop'') + nullProtect (stats ''very_high_pop'')
          in tierSum \<le> nullProtect (stats ''total_pop'')
             \<and> (tierSum = nullProtect (stats ''total_pop'') \<longleftrightarrow>
                  (\<forall>c \<in> set (geometry (boundaries ! i)).
                      0 < pixelValue (population c) \<longrightarrow> inSomeTier riskMap c)))
         \<and> numProperty (llgStats ! i) ''Low_Risk_Population''
           + numProperty (llgStats ! i) ''Medium_Risk_Population''
           + numProperty (llgStats ! i) ''High_Risk_Population''
           + numProperty (llgStats ! i) ''Very_High_Risk_Population''
           \<le> numProperty (llgStats ! i) ''LLG_Population'' + 2"
  using tier_sum_le_total [OF assms(3), of riskMap] zone_risk_bounds(9) [OF assms]
  by (simp add: riskMultiband_stats Let_def)

theorem tier_population_sum_within_two_witness:
  "calculateLLGStatistics_landslide demoZones demoPopulation demoRisk = Some demoLlgStats
   \<and> 1 < length demoZones
   \<and> nonnegOn demoPopulation (geometry (demoZones ! 1))
   \<and> numProperty (demoLlgStats ! 1) ''Low_Risk_Population''
       + numProperty (demoLlgStats ! 1) ''Medium_Risk_Population''
       + numProperty (demoLlgStats ! 1) ''High_Risk_Population''
       + numProperty (demoLlgStats ! 1) ''Very_High_Risk_Population''
       \<le> numProperty (demoLlgStats ! 1) ''LLG_Population'' + 2
   \<and> numProperty (demoLlgStats ! 1) ''LLG_Population'' = 2"
proof -
  have h1: "calculateLLGStatistics_landslide demoZones demoPopulation demoRisk = Some demoLlgStats"
    by (rule calculateLLGStatistics_landslide_the)
  have h2: "1 < length demoZones" by (simp add: demoZones_def)
  have h3: "nonnegOn demoPopulation (geometry (demoZones ! 1))" by (rule demo_nonneg)
  from tier_population_sum_within_two [OF h1 h2 h3] h1 h2 h3 show ?thesis
    using demo_counts1 by simp
qed

text \<open>
  Two cells with 0.625 people each, one in tier 1 and one in tier 4: the total 1.25 is
  recorded as 1, the two tier counts as 1 each.
\<close>

theorem tier_population_sum_counterexample:
  "nonnegOn demoPopulation (geometry (demoZones ! 0))
   \<and> numProperty (demoLlgStats ! 0) ''LLG_Population'' = 1
   \<and> numProperty (demoLlgStats ! 0) ''Low_Risk_Population''
       + numProperty (demoLlgStats ! 0) ''Medium_Risk_Population''
       + numProperty (demoLlgStats ! 0) ''High_Risk_Population''
       + numProperty (demoLlgStats ! 0) ''Very_High_Risk_Population'' = 2
   \<and> \<not> (numProperty (demoLlgStats ! 0) ''Low_Risk_Population''
       + numProperty (demoLlgStats ! 0) ''Medium_Risk_Population''
       + numProperty (demoLlgStats ! 0) ''High_Risk_Population''
       + numProperty (demoLlgStats ! 0) ''Very_High_Risk_Population''
       \<le> numProperty (demoLlgStats ! 0) ''LLG_Population'')"
  by (simp add: demo_counts0 demo_nonneg)

section \<open>Ratios and the risk score\<close>

text \<open>
  C6 (as the code has it): with non-negative population every tier ratio of a zone lies
  in [0,1]; the four ratios add up to at most 1 + 2 / max(total population, 1).
\<close>

theorem tier_ratio_bounds:
  assumes "calculateLLGStatistics_landslide boundaries population riskMap = Some llgStats"
    and "i < length boundaries"
    and "nonnegOn population (geometry (boundaries ! i))"
  shows "0 \<le> numProperty (llgStats ! i) ''Low_Risk_Ratio''
       \<and> numProperty (llgStats ! i) ''Low_Risk_Ratio'' \<le> 1
       \<and> 0 \<le> numProperty (llgStats ! i) ''Medium_Risk_Ratio''
       \<and> numProperty (llgStats ! i) ''Medium_Risk_Ratio'' \<le> 1
       \<and> 0 \<le> numProperty (llgStats ! i) ''High_Risk_Ratio''
       \<and> numProperty (llgStats ! i) ''High_Risk_Ratio'' \<le> 1
       \<and> 0 \<le> numProperty (llgStats ! i) ''Very_High_Risk_Ratio''
       \<and> numProperty (llgStats ! i) ''Very_High_Risk_Ratio'' \<le> 1
       \<and> numProperty (llgStats ! i) ''Low_Risk_Ratio''
           + numProperty (llgStats ! i) ''Medium_Risk_Ratio''
           + numProperty (llgStats ! i) ''High_Risk_Ratio''
           + numProperty (llgStats ! i) ''Very_High_Risk_Ratio''
           \<le> 1 + 2 / (if numProperty (llgStats ! i) ''LLG_Population'' > 0
                        then numProperty (llgStats ! i) ''LLG_Population'' else 1)"
proof -
  define T where "T = numProperty (llgStats ! i) ''LLG_Population''"
  define a where "a = numProperty (llgStats ! i) ''Low_Risk_Population''"
  define b where "b = numProperty (llgStats ! i) ''Medium_Risk_Population''"
  define c where "c = numProperty (llgStats ! i) ''High_Risk_Population''"
  define d where "d = numProperty (llgStats ! i) ''Very_High_Risk_Population''"
  note bnd = zone_risk_bounds [OF assms, folded T_def a_def b_def c_def d_def]
  note rat = zone_risk_ratios(1-4) [OF assms(1,2), folded T_def a_def b_def c_def d_def]
  show ?thesis
  proof (cases "0 < T")
    case True
    have "a / T + b / T + c / T + d / T = (a + b + c + d) / T"
      by (simp add: add_divide_distrib)
    also have "\<dots> \<le> (T + 2) / T"
      using True bnd(9) by (simp add: divide_right_mono)
    also have "\<dots> = 1 + 2 / T"
      using True by (simp add: add_divide_distrib)
    finally have s: "a / T + b / T + c / T + d / T \<le> 1 + 2 / T" .
    show ?thesis
      unfolding rat T_def [symmetric] using True bnd s by simp
  next
    case False
    then have "a = 0" "b = 0" "c = 0" "d = 0"
      using bnd by simp_all
    then show ?thesis
      unfolding rat T_def [symmetric] using False by simp
  qed
qed

theorem tier_ratio_bounds_witness:
  "calculateLLGStatistics_landslide demoZones demoPopulation demoRisk = Some demoLlgStats
   \<and> 3 < length demoZones
   \<and> nonnegOn demoPopulation (geometry (demoZones ! 3))
   \<and> numProperty (demoLlgStats ! 3) ''Low_Risk_Ratio'' = 0
   \<and> numProperty (demoLlgStats ! 3) ''Medium_Risk_Ratio'' = 3 / 5
   \<and> numProperty (demoLlgStats ! 3) ''High_Risk_Ratio'' = 0
   \<and> numProperty (demoLlgStats ! 3) ''Very_High_Risk_Ratio'' = 2 / 5
   \<and> 0 \<le> numProperty (demoLlgStats ! 3) ''Medium_Risk_Ratio''
   \<and> numProperty (demoLlgStats ! 3) ''Medium_Risk_Ratio'' \<le> 1
   \<and> 0 \<le> numProperty (demoLlgStats ! 3) ''Very_High_Risk_Ratio''
   \<and> numProperty (demoLlgStats ! 3) ''Very_High_Risk_Ratio'' \<le> 1
   \<and> numProperty (demoLlgStats ! 3) ''Low_Risk_Ratio''
       + numProperty (demoLlgStats ! 3) ''Medium_Risk_Ratio''
       + numProperty (demoLlgStats ! 3) ''High_Risk_Ratio''
       + numProperty (demoLlgStats ! 3) ''Very_High_Risk_Ratio''
       \<le> 1 + 2 / numProperty (demoLlgStats ! 3) ''LLG_Population''
   \<and> 1 < length demoZones
   \<and> nonnegOn demoPopulation (geometry (demoZones ! 1))
   \<and> numProperty (demoLlgStats ! 1) ''Low_Risk_Ratio'' = 0
   \<and> numProperty (demoLlgStats ! 1) ''Medium_Risk_Ratio'' = 1 / 2
   \<and> numProperty (demoLlgStats ! 1) ''High_Risk_Ratio'' = 1 / 2
   \<and> numProperty (demoLlgStats ! 1) ''Very_High_Risk_Ratio'' = 1 / 2
   \<and> numProperty (demoLlgStats ! 1) ''High_Risk_Ratio'' \<le> 1
   \<and> numProperty (demoLlgStats ! 1) ''Low_Risk_Ratio''
       + numProperty (demoLlgStats ! 1) ''Medium_Risk_Ratio''
       + numProperty (demoLlgStats ! 1) ''High_Risk_Ratio''
       + numProperty (demoLlgStats ! 1) ''Very_High_Risk_Ratio''
       \<le> 1 + 2 / numProperty (demoLlgStats ! 1) ''LLG_Population''"
proof -
  have h1: "calculateLLGStatistics_landslide demoZones demoPopulation demoRisk = Some demoLlgStats"
    by (rule calculateLLGStatistics_landslide_the)
  have l3: "3 < length demoZones" and l1: "1 < length demoZones"
    by (simp_all add: demoZones_def)
  have n3: "nonnegOn demoPopulation (geometry (demoZones ! 3))"
    and n1: "nonnegOn demoPopulation (geometry (demoZones ! 1))"
    by (rule demo_nonneg)+
  from tier_ratio_bounds [OF h1 l3 n3] tier_ratio_bounds [OF h1 l1 n1] h1 l3 l1 n3 n1
  show ?thesis
    using zone_risk_ratios(1-4) [OF h1 l3] zone_risk_ratios(1-4) [OF h1 l1]
      demo_counts3 demo_counts1
    by simp
qed

text \<open>
  Three cells with 0.75 people each in tiers 2, 3 and 4: the total 2.25 is recorded as 2,
  each tier count as 1, so the ratios are 1/2, 1/2, 1/2.
\<close>

theorem tier_ratio_sum_counterexample:
  "nonnegOn demoPopulation (geometry (demoZones ! 1))
   \<and> numProperty (demoLlgStats ! 1) ''Low_Risk_Ratio''
       + numProperty (demoLlgStats ! 1) ''Medium_Risk_Ratio''
       + numProperty (demoLlgStats ! 1) ''High_Risk_Ratio''
       + numProperty (demoLlgStats ! 1) ''Very_High_Risk_Ratio'' = 3 / 2
   \<and> \<not> (numProperty (demoLlgStats ! 1) ''Low_Risk_Ratio''
       + numProperty (demoLlgStats ! 1) ''Medium_Risk_Ratio''
       + numProperty (demoLlgStats ! 1) ''High_Risk_Ratio''
       + numProperty (demoLlgStats ! 1) ''Very_High_Risk_Ratio'' \<le> 1)"
proof -
  have len: "1 < length demoZones" by (simp add: demoZones_def)
  show ?thesis
    using zone_risk_ratios(1-4) [OF calculateLLGStatistics_landslide_the len, of demoPopulation demoRisk]
      demo_counts1 demo_nonneg [of "geometry (demoZones ! 1)"]
    by simp
qed

text \<open>
  C4 (as the code has it): the weights are 1, 2, 3, 4; the score is the sum of the tier
  ratios times the weights, the ratios being tier count over total count when the total
  is positive.  With non-negative population the score is never negative and is 0 when
  the total is 0; it is at most 4 when the tier counts add up to at most the total, and
  at least 1 when they add up to a positive total exactly.
\<close>

theorem risk_score_formula_and_range:
  assumes "calculateLLGStatistics_landslide boundaries population riskMap = Some llgStats"
    and "i < length boundaries"
  shows "low CONFIG_riskWeights = 1 \<and> medium CONFIG_riskWeights = 2
       \<and> high CONFIG_riskWeights = 3 \<and> veryHigh CONFIG_riskWeights = 4
       \<and> (let r = llgStats ! i;
               total = numProperty r ''LLG_Population'';
               lowPop = numProperty r ''Low_Risk_Population'';
               mediumPop = numProperty r ''Medium_Risk_Population'';
               highPop = numProperty r ''High_Risk_Population'';
               veryHighPop = numProperty r ''Very_High_Risk_Population'';
               score = numProperty r ''Risk_Score''
          in (0 < total \<longrightarrow>
                score = lowPop / total * low CONFIG_riskWeights
                      + mediumPop / total * medium CONFIG_riskWeights
                      + highPop / total * high CONFIG_riskWeights
                      + veryHighPop / total * veryHigh CONFIG_riskWeights)
           \<and> (nonnegOn population (geometry (boundaries ! i)) \<longrightarrow>
                0 \<le> score
              \<and> (total = 0 \<longrightarrow> score = 0)
              \<and> (lowPop + mediumPop + highPop + veryHighPop \<le> total \<longrightarrow>
                    score \<le> veryHigh CONFIG_riskWeights)
              \<and> (0 < total \<and> lowPop + mediumPop + highPop + veryHighPop = total \<longrightarrow>
                    low CONFIG_riskWeights \<le> score)))"
proof -
  define T where "T = numProperty (llgStats ! i) ''LLG_Population''"
  define a where "a = numProperty (llgStats ! i) ''Low_Risk_Population''"
  define b where "b = numProperty (llgStats ! i) ''Medium_Risk_Population''"
  define c where "c = numProperty (llgStats ! i) ''High_Risk_Population''"
  define d where "d = numProperty (llgStats ! i) ''Very_High_Risk_Population''"
  define S where "S = (if 0 < T then T else 1)"
  note rat = zone_risk_ratios [OF assms, folded T_def a_def b_def c_def d_def, folded S_def]
  have score: "numProperty (llgStats ! i) ''Risk_Score'' = (a + 2 * b + 3 * c + 4 * d) / S"
    unfolding rat by (simp add: add_divide_distrib mult.commute)
  have Spos: "0 < S" by (simp add: S_def)
  have formula: "0 < T \<Longrightarrow> (a + 2 * b + 3 * c + 4 * d) / S
      = a / T * 1 + b / T * 2 + c / T * 3 + d / T * 4"
    by (simp add: S_def add_divide_distrib mult.commute)
  have range: "0 \<le> (a + 2 * b + 3 * c + 4 * d) / S
      \<and> (T = 0 \<longrightarrow> (a + 2 * b + 3 * c + 4 * d) / S = 0)
      \<and> (a + b + c + d \<le> T \<longrightarrow> (a + 2 * b + 3 * c + 4 * d) / S \<le> 4)
      \<and> (0 < T \<and> a + b + c + d = T \<longrightarrow> 1 \<le> (a + 2 * b + 3 * c + 4 * d) / S)"
    if nn: "nonnegOn population (geometry (boundaries ! i))"
  proof -
    note bnd = zone_risk_bounds [OF assms nn, folded T_def a_def b_def c_def d_def]
    have z: "T = 0 \<Longrightarrow> a = 0 \<and> b = 0 \<and> c = 0 \<and> d = 0"
      using bnd by simp
    have up: "a + b + c + d \<le> T \<Longrightarrow> a + 2 * b + 3 * c + 4 * d \<le> 4 * S"
      using bnd by (simp add: S_def)
    have lo: "0 < T \<Longrightarrow> a + b + c + d = T \<Longrightarrow> S \<le> a + 2 * b + 3 * c + 4 * d"
      using bnd by (simp add: S_def)
    show ?thesis
      using Spos bnd(1-4) z up lo by (simp add: divide_le_eq le_divide_eq)
  qed
  show ?thesis
    unfolding Let_def T_def [symmetric] a_def [symmetric] b_def [symmetric] c_def [symmetric]
      d_def [symmetric] score
    using formula range by (simp add: CONFIG_riskWeights_def)
qed


theorem risk_score_formula_and_range_witness:
  "calculateLLGStatistics_landslide demoZones demoPopulation demoRisk = Some demoLlgStats
   \<and> 3 < length demoZones
   \<and> nonnegOn demoPopulation (geometry (demoZones ! 3))
   \<and> 0 < numProperty (demoLlgStats ! 3) ''LLG_Population''
   \<and> numProperty (demoLlgStats ! 3) ''Low_Risk_Population''
       + numProperty (demoLlgStats ! 3) ''Medium_Risk_Population''
       + numProperty (demoLlgStats ! 3) ''High_Risk_Population''
       + numProperty (demoLlgStats ! 3) ''Very_High_Risk_Population''
       = numProperty (demoLlgStats ! 3) ''LLG_Population''
   \<and> numProperty (demoLlgStats ! 3) ''Risk_Score'' = 14 / 5
   \<and> 1 \<le> numProperty (demoLlgStats ! 3) ''Risk_Score''
   \<and> numProperty (demoLlgStats ! 3) ''Risk_Score'' \<le> 4
   \<and> numProperty (demoLlgStats ! 4) ''LLG_Population'' = 0
   \<and> numProperty (demoLlgStats ! 4) ''Risk_Score'' = 0"
proof -
  have h1: "calculateLLGStatistics_landslide demoZones demoPopulation demoRisk = Some demoLlgStats"
    by (rule calculateLLGStatistics_landslide_the)
  have h3: "3 < length demoZones" and h4: "4 < length demoZones"
    by (simp_all add: demoZones_def)
  from risk_score_formula_and_range [OF h1 h3] risk_score_formula_and_range [OF h1 h4]
    h1 h3 show ?thesis
    using demo_counts3 demo_counts4 demo_nonneg [of "geometry (demoZones ! 3)"]
      demo_nonneg [of "geometry (demoZones ! 4)"]
    by (simp add: Let_def)
qed

text \<open>
  A zone whose 100 people live where the hazard raster has no data has score 0, below the
  least weight; the zone of the two 0.625 cells (tiers 1 and 4) has score 5, above the
  greatest weight.
\<close>

theorem risk_score_range_counterexample:
  "nonnegOn demoPopulation (geometry (demoZones ! 2))
   \<and> 0 < numProperty (demoLlgStats ! 2) ''LLG_Population''
   \<and> numProperty (demoLlgStats ! 2) ''Risk_Score'' = 0
   \<and> \<not> (low CONFIG_riskWeights \<le> numProperty (demoLlgStats ! 2) ''Risk_Score'')
   \<and> 0 < numProperty (demoLlgStats ! 0) ''LLG_Population''
   \<and> numProperty (demoLlgStats ! 0) ''Risk_Score'' = 5
   \<and> \<not> (numProperty (demoLlgStats ! 0) ''Risk_Score'' \<le> veryHigh CONFIG_riskWeights)"
proof -
  have len: "2 < length demoZones" "0 < length demoZones" by (simp_all add: demoZones_def)
  show ?thesis
    using zone_risk_ratios [OF calculateLLGStatistics_landslide_the len(1), of demoPopulation demoRisk]
      zone_risk_ratios [OF calculateLLGStatistics_landslide_the len(2), of demoPopulation demoRisk]
      demo_counts2 demo_counts0 demo_nonneg [of "geometry (demoZones ! 2)"]
    by (simp add: CONFIG_riskWeights_def)
qed

section \<open>The flood script's per-zone record\<close>




lemma llgFloodRecord_Some:
  "llgFloodRecord stats feature = Some (feature_set feature
     (let totalPop = ee_round (nullProtect (stats ''total_pop''));
          exposedPopCount = ee_round (nullProtect (stats ''exposed_pop''));
          floodAreaKm2 = nullProtect (stats ''flood_area'') * 900 / 1000000
      in [(''LLG_Population'', Num totalPop),
          (''Exposed_Population'', Num exposedPopCount),
          (''Flood_Area_km2'', Num floodAreaKm2),
          (''Exposure_Ratio'', Num (if totalPop > 0 then exposedPopCount / totalPop else 0)),
          (''Exposure_Density'',
             Num (if floodAreaKm2 > 0 then exposedPopCount / floodAreaKm2 else 0))]))"
  by (simp add: llgFloodRecord_def Let_def ee_divide_def)

lemma llgFloodRecord_total:
  "llgFloodRecord stats feature = Some (the (llgFloodRecord stats feature))"
  by (simp add: llgFloodRecord_Some)



lemma calculateLLGStatistics_flood_total:
  "calculateLLGStatistics_flood boundaries population exposedPop floodMask =
     Some (map (\<lambda>feature. the (llgFloodRecord
       (reduceRegion (floodMultiband population exposedPop floodMask) (geometry feature))
       feature)) boundaries)"
  unfolding calculateLLGStatistics_flood_def Let_def
  by (rule those_map_Some) (rule llgFloodRecord_total)

lemma flood_llg_stats_the:
  "flood_llg_stats boundaries population floodDepth
     = Some (the (flood_llg_stats boundaries population floodDepth))"
  by (simp add: flood_llg_stats_def Let_def calculateLLGStatistics_flood_total)






section \<open>What the statistics leave untouched\<close>

lemma feature_set_frame:
  "fid (feature_set f kvs) = fid f"
  "geometry (feature_set f kvs) = geometry f"
  "k \<notin> fst ` set kvs \<Longrightarrow> properties (feature_set f kvs) k = properties f k"
  "dom (properties (feature_set f kvs)) = dom (properties f) \<union> fst ` set kvs"
proof -
  show "fid (feature_set f kvs) = fid f" "geometry (feature_set f kvs) = geometry f"
    by (simp_all add: feature_set_def)
  show "properties (feature_set f kvs) k = properties f k" if "k \<notin> fst ` set kvs"
  proof -
    have "map_of kvs k = None" using that by (simp add: map_of_eq_None_iff)
    then show ?thesis by (simp add: feature_set_def map_add_def)
  qed
  show "dom (properties (feature_set f kvs)) = dom (properties f) \<union> fst ` set kvs"
    by (simp add: feature_set_def dom_map_of_conv_image_fst Un_commute)
qed

lemma llgRiskRecord_keys:
  "\<exists>kvs. llgRiskRecord stats feature = Some (feature_set feature kvs)
      \<and> map fst kvs = riskStatKeys"
  by (rule exI, rule conjI, rule llgRiskRecord_Some) (simp add: Let_def riskStatKeys_def)

lemma llgFloodRecord_keys:
  "\<exists>kvs. llgFloodRecord stats feature = Some (feature_set feature kvs)
      \<and> map fst kvs = floodStatKeys"
  by (rule exI, rule conjI, rule llgFloodRecord_Some) (simp add: Let_def floodStatKeys_def)

lemma llgRiskRecord_frame:
  assumes "llgRiskRecord stats feature = Some r"
  shows "fid r = fid feature" and "geometry r = geometry feature"
    and "k \<notin> set riskStatKeys \<Longrightarrow> properties r k = properties feature k"
    and "dom (properties r) = dom (properties feature) \<union> set riskStatKeys"
proof -
  obtain kvs where r: "r = feature_set feature kvs" and keys: "map fst kvs = riskStatKeys"
    using llgRiskRecord_keys [of stats feature] assms by auto
  have img: "fst ` set kvs = set riskStatKeys"
    using keys by (metis set_map)
  show "fid r = fid feature" "geometry r = geometry feature"
    by (simp_all add: r feature_set_frame)
  show "properties r k = properties feature k" if "k \<notin> set riskStatKeys"
    using that unfolding r img [symmetric] by (rule feature_set_frame(3))
  show "dom (properties r) = dom (properties feature) \<union> set riskStatKeys"
    unfolding r img [symmetric] by (rule feature_set_frame(4))
qed

lemma llgFloodRecord_frame:
  assumes "llgFloodRecord stats feature = Some r"
  shows "fid r = fid feature" and "geometry r = geometry feature"
    and "k \<notin> set floodStatKeys \<Longrightarrow> properties r k = properties feature k"
    and "dom (properties r) = dom (properties feature) \<union> set floodStatKeys"
proof -
  obtain kvs where r: "r = feature_set feature kvs" and keys: "map fst kvs = floodStatKeys"
    using llgFloodRecord_keys [of stats feature] assms by auto
  have img: "fst ` set kvs = set floodStatKeys"
    using keys by (metis set_map)
  show "fid r = fid feature" "geometry r = geometry feature"
    by (simp_all add: r feature_set_frame)
  show "properties r k = properties feature k" if "k \<notin> set floodStatKeys"
    using that unfolding r img [symmetric] by (rule feature_set_frame(3))
  show "dom (properties r) = dom (properties feature) \<union> set floodStatKeys"
    unfolding r img [symmetric] by (rule feature_set_frame(4))
qed

lemma calculateLLGStatistics_flood_nth:
  assumes "calculateLLGStatistics_flood boundaries population exposedPop floodMask = Some floodStats"
  shows "length floodStats = length boundaries"
    and "i < length boundaries \<Longrightarrow>
      llgFloodRecord
        (reduceRegion (floodMultiband population exposedPop floodMask) (geometry (boundaries ! i)))
        (boundaries ! i) = Some (floodStats ! i)"
  using those_nth [OF assms [unfolded calculateLLGStatistics_flood_def Let_def]]
  by simp_all

text \<open>
  C10: the statistics functions return one record per input zone, in order, with the
  zone's identifier and geometry, with every property other than the statistic
  properties (so the parent province \<open>ADM1_EN\<close> too) as it was, and with the statistic
  properties added.  The functions are pure: the input collection is a value and stays
  what it was.
\<close>

theorem calculateLLGStatistics_frame:
  assumes "calculateLLGStatistics_landslide boundaries population riskMap = Some llgStats"
    and "calculateLLGStatistics_flood boundaries population exposedPop floodMask = Some floodStats"
    and "i < length boundaries"
  shows "length llgStats = length boundaries \<and> length floodStats = length boundaries
    \<and> fid (llgStats ! i) = fid (boundaries ! i)
    \<and> geometry (llgStats ! i) = geometry (boundaries ! i)
    \<and> properties (llgStats ! i) ''ADM1_EN'' = properties (boundaries ! i) ''ADM1_EN''
    \<and> (\<forall>k. k \<notin> set riskStatKeys \<longrightarrow>
          properties (llgStats ! i) k = properties (boundaries ! i) k)
    \<and> dom (properties (llgStats ! i)) = dom (properties (boundaries ! i)) \<union> set riskStatKeys
    \<and> fid (floodStats ! i) = fid (boundaries ! i)
    \<and> geometry (floodStats ! i) = geometry (boundaries ! i)
    \<and> properties (floodStats ! i) ''ADM1_EN'' = properties (boundaries ! i) ''ADM1_EN''
    \<and> (\<forall>k. k \<notin> set floodStatKeys \<longrightarrow>
          properties (floodStats ! i) k = properties (boundaries ! i) k)
    \<and> dom (properties (floodStats ! i)) = dom (properties (boundaries ! i)) \<union> set floodStatKeys"
proof -
  note L = calculateLLGStatistics_landslide_nth [OF assms(1)]
  note F = calculateLLGStatistics_flood_nth [OF assms(2)]
  have a1: "''ADM1_EN'' \<notin> set riskStatKeys" and a2: "''ADM1_EN'' \<notin> set floodStatKeys"
    by (simp_all add: riskStatKeys_def floodStatKeys_def)
  show ?thesis
    using L(1) F(1) llgRiskRecord_frame [OF L(2) [OF assms(3)]]
      llgFloodRecord_frame [OF F(2) [OF assms(3)]] a1 a2
    by simp
qed

theorem calculateLLGStatistics_frame_witness:
  "calculateLLGStatistics_landslide demoZones demoPopulation demoRisk = Some demoLlgStats
   \<and> flood_llg_stats demoZones demoPopulation demoFloodDepth = Some demoFloodStats
   \<and> 0 < length demoZones
   \<and> ''LLG_NAME'' \<notin> set riskStatKeys \<and> ''LLG_NAME'' \<notin> set floodStatKeys
   \<and> length demoLlgStats = 5 \<and> length demoFloodStats = 5
   \<and> fid (demoLlgStats ! 0) = ''llg-1'' \<and> geometry (demoLlgStats ! 0) = [0, 1]
   \<and> properties (demoLlgStats ! 0) ''ADM1_EN'' = Some (Str ''A'')
   \<and> properties (demoLlgStats ! 0) ''LLG_NAME'' = Some (Str ''Alpha'')
   \<and> fid (demoFloodStats ! 0) = ''llg-1'' \<and> geometry (demoFloodStats ! 0) = [0, 1]
   \<and> properties (demoFloodStats ! 0) ''ADM1_EN'' = Some (Str ''A'')
   \<and> properties (demoFloodStats ! 0) ''LLG_NAME'' = Some (Str ''Alpha'')"
proof -
  have h1: "calculateLLGStatistics_landslide demoZones demoPopulation demoRisk = Some demoLlgStats"
    by (rule calculateLLGStatistics_landslide_the)
  have h2': "flood_llg_stats demoZones demoPopulation demoFloodDepth = Some demoFloodStats"
    by (rule flood_llg_stats_the)
  have h2: "calculateLLGStatistics_flood demoZones demoPopulation
      (calculateExposedPopulation demoPopulation (createFloodMask demoFloodDepth))
      (createFloodMask demoFloodDepth) = Some demoFloodStats"
    using h2' by (simp add: flood_llg_stats_def Let_def)
  have h3: "0 < length demoZones" by (simp add: demoZones_def)
  have k: "''LLG_NAME'' \<notin> set riskStatKeys" "''LLG_NAME'' \<notin> set floodStatKeys"
    by (simp_all add: riskStatKeys_def floodStatKeys_def)
  from calculateLLGStatistics_frame [OF h1 h2 h3] h1 h2' h3 k show ?thesis
    by (simp add: demoZones_def)
qed

section \<open>A band the reducer returns nothing for\<close>

lemma nullProtect_idem: "nullProtect (Some (nullProtect v)) = nullProtect v"
  by (simp add: nullProtect_def split: option.splits)

text \<open>
  C9 (as the code has it): whatever the reason a band has no value in the reducer's
  dictionary, the record is built with 0 in its place: it equals the record of the
  dictionary that holds 0 for that band, and its properties are the zone's own plus the
  statistic properties, with no flag among them.  Each zone's record is computed from
  that zone's feature and the rasters alone.
\<close>

theorem missing_band_recorded_as_zero:
  "llgRiskRecord stats feature
      = llgRiskRecord (\<lambda>band. Some (nullProtect (stats band))) feature
   \<and> llgFloodRecord stats feature
      = llgFloodRecord (\<lambda>band. Some (nullProtect (stats band))) feature
   \<and> (\<exists>r. llgRiskRecord stats feature = Some r
        \<and> dom (properties r) = dom (properties feature) \<union> set riskStatKeys)
   \<and> (\<exists>r. llgFloodRecord stats feature = Some r
        \<and> dom (properties r) = dom (properties feature) \<union> set floodStatKeys)
   \<and> calculateLLGStatistics_landslide boundaries population riskMap
        = Some (map (\<lambda>zone. the (llgRiskRecord
            (reduceRegion (riskMultiband population riskMap) (geometry zone)) zone)) boundaries)
   \<and> calculateLLGStatistics_flood boundaries population exposedPop floodMask
        = Some (map (\<lambda>zone. the (llgFloodRecord
            (reduceRegion (floodMultiband population exposedPop floodMask) (geometry zone))
            zone)) boundaries)"
proof -
  have "llgRiskRecord stats feature
      = llgRiskRecord (\<lambda>band. Some (nullProtect (stats band))) feature"
    by (simp add: llgRiskRecord_def nullProtect_idem)
  moreover have "llgFloodRecord stats feature
      = llgFloodRecord (\<lambda>band. Some (nullProtect (stats band))) feature"
    by (simp add: llgFloodRecord_def nullProtect_idem)
  moreover have "\<exists>r. llgRiskRecord stats feature = Some r
        \<and> dom (properties r) = dom (properties feature) \<union> set riskStatKeys"
    using llgRiskRecord_frame(4) [OF llgRiskRecord_total] llgRiskRecord_total by blast
  moreover have "\<exists>r. llgFloodRecord stats feature = Some r
        \<and> dom (properties r) = dom (properties feature) \<union> set floodStatKeys"
    using llgFloodRecord_frame(4) [OF llgFloodRecord_total] llgFloodRecord_total by blast
  ultimately show ?thesis
    using calculateLLGStatistics_landslide_total calculateLLGStatistics_flood_total by blast
qed

text \<open>
  The third demo zone holds 100 people in valid cells.  When the reducer hands back no
  value for any band, the record is the one of an all-zero reduction: population 0, and
  no property beyond the zone's own two and the ten statistics.
\<close>

theorem failed_reduction_unflagged_counterexample:
  "zoneSum demoPopulation (geometry (demoZones ! 2)) = 100
   \<and> llgRiskRecord Map.empty (demoZones ! 2) = llgRiskRecord (\<lambda>band. Some 0) (demoZones ! 2)
   \<and> numProperty (the (llgRiskRecord Map.empty (demoZones ! 2))) ''LLG_Population'' = 0
   \<and> dom (properties (the (llgRiskRecord Map.empty (demoZones ! 2))))
       = {''ADM1_EN'', ''LLG_NAME''} \<union> set riskStatKeys"
proof -
  have "zoneSum demoPopulation (geometry (demoZones ! 2)) = 100"
    by (simp add: demo_eval)
  moreover have "llgRiskRecord Map.empty (demoZones ! 2)
      = llgRiskRecord (\<lambda>band. Some 0) (demoZones ! 2)"
    by (simp add: llgRiskRecord_def nullProtect_def)
  moreover have "numProperty (the (llgRiskRecord Map.empty (demoZones ! 2))) ''LLG_Population'' = 0"
    using llgRiskRecord_values(1) [OF llgRiskRecord_total, of Map.empty "demoZones ! 2"]
    by (simp add: nullProtect_def ee_round_0)
  moreover have "dom (properties (the (llgRiskRecord Map.empty (demoZones ! 2))))
       = {''ADM1_EN'', ''LLG_NAME''} \<union> set riskStatKeys"
  proof -
    have "dom (properties (demoZones ! 2)) = {''ADM1_EN'', ''LLG_NAME''}"
      by (simp add: demoZones_def insert_commute)
    then show ?thesis
      using llgRiskRecord_frame(4) [OF llgRiskRecord_total, of Map.empty "demoZones ! 2"]
      by simp
  qed
  ultimately show ?thesis by blast
qed

section \<open>Aggregation to provinces\<close>

lemma aggregate_sum_numProperty:
  "aggregate_sum fc k = sum_list (map (\<lambda>z. numProperty z k) fc)"
  by (induction fc) (simp_all add: aggregate_sum_def numProperty_def split: option.splits val.splits)

lemma set_ee_distinct: "set (ee_distinct xs) = set xs"
  by (simp add: ee_distinct_def)

lemma aggregate_array_member:
  "name \<in> set (aggregate_array fc k) \<Longrightarrow> filter_eq fc k name \<noteq> []"
  by (induction fc) (auto simp: aggregate_array_def filter_eq_def split: option.splits)

lemma provinceFloodRecord_Some:
  "provinceFloodRecord llgStats provinceName = Some (ee_Feature_null
     (let filtered = filter_eq llgStats ''ADM1_EN'' provinceName;
          totalPop = aggregate_sum filtered ''LLG_Population'';
          exposedPop = aggregate_sum filtered ''Exposed_Population'';
          floodArea = aggregate_sum filtered ''Flood_Area_km2''
      in [(''Province'', provinceName),
          (''Total_Population'', Num totalPop),
          (''Exposed_Population'', Num exposedPop),
          (''Flood_Area_km2'', Num floodArea),
          (''Exposure_Ratio'', Num (if totalPop > 0 then exposedPop / totalPop else 0)),
          (''Exposure_Density'', Num (if floodArea > 0 then exposedPop / floodArea else 0))]))"
  by (simp add: provinceFloodRecord_def Let_def ee_divide_def)

lemma provinceRiskRecord_Some:
  "provinceRiskRecord llgStats provinceName = Some (ee_Feature_null
     (let filtered = filter_eq llgStats ''ADM1_EN'' provinceName;
          totalRiskScore = aggregate_sum filtered ''Risk_Score'';
          llgCount = real (length filtered)
      in [(''Province'', provinceName),
          (''Total_Population'', Num (aggregate_sum filtered ''LLG_Population'')),
          (''Low_Risk_Population'', Num (aggregate_sum filtered ''Low_Risk_Population'')),
          (''Medium_Risk_Population'', Num (aggregate_sum filtered ''Medium_Risk_Population'')),
          (''High_Risk_Population'', Num (aggregate_sum filtered ''High_Risk_Population'')),
          (''Very_High_Risk_Population'',
             Num (aggregate_sum filtered ''Very_High_Risk_Population'')),
          (''Total_Risk_Score'', Num totalRiskScore),
          (''Average_Risk_Score'', Num (if llgCount > 0 then totalRiskScore / llgCount else 0)),
          (''LLG_Count'', Num llgCount)]))"
  by (simp add: provinceRiskRecord_def Let_def ee_divide_def)

lemma provinceFloodRecord_total:
  "provinceFloodRecord llgStats n = Some (the (provinceFloodRecord llgStats n))"
  by (simp add: provinceFloodRecord_Some)

lemma provinceRiskRecord_total:
  "provinceRiskRecord llgStats n = Some (the (provinceRiskRecord llgStats n))"
  by (simp add: provinceRiskRecord_Some)

lemma provinceFloodRecord_values:
  assumes "provinceFloodRecord llgStats name = Some p"
  defines "members \<equiv> filter_eq llgStats ''ADM1_EN'' name"
  shows "properties p ''Province'' = Some name"
    and "numProperty p ''Total_Population'' = aggregate_sum members ''LLG_Population''"
    and "numProperty p ''Exposed_Population'' = aggregate_sum members ''Exposed_Population''"
    and "numProperty p ''Flood_Area_km2'' = aggregate_sum members ''Flood_Area_km2''"
    and "numProperty p ''Exposure_Ratio'' =
          (if numProperty p ''Total_Population'' > 0
           then numProperty p ''Exposed_Population'' / numProperty p ''Total_Population'' else 0)"
    and "numProperty p ''Exposure_Density'' =
          (if numProperty p ''Flood_Area_km2'' > 0
           then numProperty p ''Exposed_Population'' / numProperty p ''Flood_Area_km2'' else 0)"
  using assms(1) unfolding provinceFloodRecord_Some members_def
  by (auto simp: numProperty_def ee_Feature_null_def Let_def)

lemma provinceRiskRecord_values:
  assumes "provinceRiskRecord llgStats name = Some p"
  defines "members \<equiv> filter_eq llgStats ''ADM1_EN'' name"
  shows "properties p ''Province'' = Some name"
    and "numProperty p ''Total_Population'' = aggregate_sum members ''LLG_Population''"
    and "numProperty p ''Low_Risk_Population'' = aggregate_sum members ''Low_Risk_Population''"
    and "numProperty p ''Medium_Risk_Population''
          = aggregate_sum members ''Medium_Risk_Population''"
    and "numProperty p ''High_Risk_Population'' = aggregate_sum members ''High_Risk_Population''"
    and "numProperty p ''Very_High_Risk_Population''
          = aggregate_sum members ''Very_High_Risk_Population''"
    and "numProperty p ''Total_Risk_Score'' = aggregate_sum members ''Risk_Score''"
    and "numProperty p ''Average_Risk_Score'' =
          (if members \<noteq> [] then aggregate_sum members ''Risk_Score'' / real (length members)
           else 0)"
    and "numProperty p ''LLG_Count'' = real (length members)"
  using assms(1) unfolding provinceRiskRecord_Some members_def
  by (auto simp: numProperty_def ee_Feature_null_def Let_def)

lemma aggregateToProvinceLevel_flood_total:
  "aggregateToProvinceLevel_flood llgStats =
     Some (fc_sort (map (\<lambda>n. the (provinceFloodRecord llgStats n))
       (ee_distinct (aggregate_array llgStats ''ADM1_EN''))) ''Province'')"
proof -
  have "those (map (provinceFloodRecord llgStats) ps)
      = Some (map (\<lambda>n. the (provinceFloodRecord llgStats n)) ps)" for ps
    by (rule those_map_Some) (rule provinceFloodRecord_total)
  then show ?thesis
    by (simp add: aggregateToProvinceLevel_flood_def Let_def)
qed

lemma aggregateToProvinceLevel_landslide_total:
  "aggregateToProvinceLevel_landslide llgStats =
     Some (fc_sort (map (\<lambda>n. the (provinceRiskRecord llgStats n))
       (ee_distinct (aggregate_array llgStats ''ADM1_EN''))) ''Province'')"
proof -
  have "those (map (provinceRiskRecord llgStats) ps)
      = Some (map (\<lambda>n. the (provinceRiskRecord llgStats n)) ps)" for ps
    by (rule those_map_Some) (rule provinceRiskRecord_total)
  then show ?thesis
    by (simp add: aggregateToProvinceLevel_landslide_def Let_def)
qed

lemma aggregateToProvinceLevel_flood_member:
  assumes "aggregateToProvinceLevel_flood llgStats = Some provinces" and "p \<in> set provinces"
  obtains name where "provinceFloodRecord llgStats name = Some p"
    and "filter_eq llgStats ''ADM1_EN'' name \<noteq> []"
proof -
  from assms obtain name where n: "name \<in> set (aggregate_array llgStats ''ADM1_EN'')"
    and p: "p = the (provinceFloodRecord llgStats name)"
    unfolding aggregateToProvinceLevel_flood_total
    by (auto simp: fc_sort_def set_ee_distinct)
  show ?thesis
    using that [of name] provinceFloodRecord_total [of llgStats name] p
      aggregate_array_member [OF n] by simp
qed

lemma aggregateToProvinceLevel_landslide_member:
  assumes "aggregateToProvinceLevel_landslide llgStats = Some provinces" and "p \<in> set provinces"
  obtains name where "provinceRiskRecord llgStats name = Some p"
    and "filter_eq llgStats ''ADM1_EN'' name \<noteq> []"
proof -
  from assms obtain name where n: "name \<in> set (aggregate_array llgStats ''ADM1_EN'')"
    and p: "p = the (provinceRiskRecord llgStats name)"
    unfolding aggregateToProvinceLevel_landslide_total
    by (auto simp: fc_sort_def set_ee_distinct)
  show ?thesis
    using that [of name] provinceRiskRecord_total [of llgStats name] p
      aggregate_array_member [OF n] by simp
qed


text \<open>
  C2: every province of the aggregated output is the parent of at least one zone; each
  of its counts is the sum of that count over its member zones; its exposure ratio and
  density are the quotients of the pooled sums (0 when the pooled divisor is 0); its
  average risk score is the sum of the member zones' scores over their number.
\<close>

theorem aggregateToProvinceLevel_pools_members:
  assumes "aggregateToProvinceLevel_flood floodLlgStats = Some floodProvinces"
    and "p \<in> set floodProvinces"
    and "aggregateToProvinceLevel_landslide riskLlgStats = Some riskProvinces"
    and "q \<in> set riskProvinces"
  shows "(\<exists>name members.
        properties p ''Province'' = Some name
      \<and> members = filter_eq floodLlgStats ''ADM1_EN'' name \<and> members \<noteq> []
      \<and> numProperty p ''Total_Population''
          = sum_list (map (\<lambda>z. numProperty z ''LLG_Population'') members)
      \<and> numProperty p ''Exposed_Population''
          = sum_list (map (\<lambda>z. numProperty z ''Exposed_Population'') members)
      \<and> numProperty p ''Flood_Area_km2''
          = sum_list (map (\<lambda>z. numProperty z ''Flood_Area_km2'') members)
      \<and> numProperty p ''Exposure_Ratio''
          = (if numProperty p ''Total_Population'' > 0
             then numProperty p ''Exposed_Population'' / numProperty p ''Total_Population''
             else 0)
      \<and> numProperty p ''Exposure_Density''
          = (if numProperty p ''Flood_Area_km2'' > 0
             then numProperty p ''Exposed_Population'' / numProperty p ''Flood_Area_km2''
             else 0))
    \<and> (\<exists>name members.
        properties q ''Province'' = Some name
      \<and> members = filter_eq riskLlgStats ''ADM1_EN'' name \<and> members \<noteq> []
      \<and> numProperty q ''Total_Population''
          = sum_list (map (\<lambda>z. numProperty z ''LLG_Population'') members)
      \<and> numProperty q ''Low_Risk_Population''
          = sum_list (map (\<lambda>z. numProperty z ''Low_Risk_Population'') members)
      \<and> numProperty q ''Medium_Risk_Population''
          = sum_list (map (\<lambda>z. numProperty z ''Medium_Risk_Population'') members)
      \<and> numProperty q ''High_Risk_Population''
          = sum_list (map (\<lambda>z. numProperty z ''High_Risk_Population'') members)
      \<and> numProperty q ''Very_High_Risk_Population''
          = sum_list (map (\<lambda>z. numProperty z ''Very_High_Risk_Population'') members)
      \<and> numProperty q ''LLG_Count'' = real (length members)
      \<and> numProperty q ''Average_Risk_Score''
          = sum_list (map (\<lambda>z. numProperty z ''Risk_Score'') members) / real (length members))"
proof -
  obtain n where n: "provinceFloodRecord floodLlgStats n = Some p"
    and ne: "filter_eq floodLlgStats ''ADM1_EN'' n \<noteq> []"
    using assms(1,2) by (rule aggregateToProvinceLevel_flood_member)
  obtain m where m: "provinceRiskRecord riskLlgStats m = Some q"
    and me: "filter_eq riskLlgStats ''ADM1_EN'' m \<noteq> []"
    using assms(3,4) by (rule aggregateToProvinceLevel_landslide_member)
  have flood: "\<exists>name members.
        properties p ''Province'' = Some name
      \<and> members = filter_eq floodLlgStats ''ADM1_EN'' name \<and> members \<noteq> []
      \<and> numProperty p ''Total_Population''
          = sum_list (map (\<lambda>z. numProperty z ''LLG_Population'') members)
      \<and> numProperty p ''Exposed_Population''
          = sum_list (map (\<lambda>z. numProperty z ''Exposed_Population'') members)
      \<and> numProperty p ''Flood_Area_km2''
          = sum_list (map (\<lambda>z. numProperty z ''Flood_Area_km2'') members)
      \<and> numProperty p ''Exposure_Ratio''
          = (if numProperty p ''Total_Population'' > 0
             then numProperty p ''Exposed_Population'' / numProperty p ''Total_Population''
             else 0)
      \<and> numProperty p ''Exposure_Density''
          = (if numProperty p ''Flood_Area_km2'' > 0
             then numProperty p ''Exposed_Population'' / numProperty p ''Flood_Area_km2''
             else 0)"
    using provinceFloodRecord_values [OF n] ne
    by (intro exI [of _ n] exI [of _ "filter_eq floodLlgStats ''ADM1_EN'' n"])
      (simp add: aggregate_sum_numProperty)
  have risk: "\<exists>name members.
        properties q ''Province'' = Some name
      \<and> members = filter_eq riskLlgStats ''ADM1_EN'' name \<and> members \<noteq> []
      \<and> numProperty q ''Total_Population''
          = sum_list (map (\<lambda>z. numProperty z ''LLG_Population'') members)
      \<and> numProperty q ''Low_Risk_Population''
          = sum_list (map (\<lambda>z. numProperty z ''Low_Risk_Population'') members)
      \<and> numProperty q ''Medium_Risk_Population''
          = sum_list (map (\<lambda>z. numProperty z ''Medium_Risk_Population'') members)
      \<and> numProperty q ''High_Risk_Population''
          = sum_list (map (\<lambda>z. numProperty z ''High_Risk_Population'') members)
      \<and> numProperty q ''Very_High_Risk_Population''
          = sum_list (map (\<lambda>z. numProperty z ''Very_High_Risk_Population'') members)
      \<and> numProperty q ''LLG_Count'' = real (length members)
      \<and> numProperty q ''Average_Risk_Score''
          = sum_list (map (\<lambda>z. numProperty z ''Risk_Score'') members) / real (length members)"
    using provinceRiskRecord_values [OF m] me
    by (intro exI [of _ m] exI [of _ "filter_eq riskLlgStats ''ADM1_EN'' m"])
      (simp add: aggregate_sum_numProperty)
  from flood risk show ?thesis by (rule conjI)
qed

lemma scenario_provinces:
  "ee_distinct (aggregate_array scenarioStats ''ADM1_EN'') = [Str ''B'', Str ''A'']"
  by (simp add: ee_distinct_def aggregate_array_def scenarioStats_def)

lemma scenario_flood_names:
  "map (\<lambda>p. stringProperty p ''Province'') scenarioFloodProvinces = [''A'', ''B'']"
  by (simp add: aggregateToProvinceLevel_flood_total scenario_provinces fc_sort_def
      provinceFloodRecord_Some stringProperty_def ee_Feature_null_def Let_def)


lemmas scenario_eval = aggregateToProvinceLevel_flood_total
  aggregateToProvinceLevel_landslide_total scenario_provinces fc_sort_def
  provinceFloodRecord_Some provinceRiskRecord_Some stringProperty_def numProperty_def
  ee_Feature_null_def Let_def

lemma scenario_flood_values:
  "map (\<lambda>p. numProperty p ''Total_Population'') scenarioFloodProvinces = [150, 200]"
  "map (\<lambda>p. numProperty p ''Exposed_Population'') scenarioFloodProvinces = [60, 0]"
  "map (\<lambda>p. numProperty p ''Flood_Area_km2'') scenarioFloodProvinces = [5, 0]"
  "map (\<lambda>p. numProperty p ''Exposure_Ratio'') scenarioFloodProvinces = [2/5, 0]"
  "map (\<lambda>p. numProperty p ''Exposure_Density'') scenarioFloodProvinces = [12, 0]"
  by (simp_all add: scenario_eval filter_eq_def aggregate_sum_def scenarioStats_def
      ee_distinct_def aggregate_array_def)

lemma scenario_risk_values:
  "map (\<lambda>p. stringProperty p ''Province'') scenarioRiskProvinces = [''A'', ''B'']"
  "map (\<lambda>p. numProperty p ''Total_Population'') scenarioRiskProvinces = [150, 200]"
  "map (\<lambda>p. numProperty p ''Low_Risk_Population'') scenarioRiskProvinces = [60, 0]"
  "map (\<lambda>p. numProperty p ''LLG_Count'') scenarioRiskProvinces = [2, 1]"
  "map (\<lambda>p. numProperty p ''Average_Risk_Score'') scenarioRiskProvinces = [11/20, 0]"
  by (simp_all add: scenario_eval filter_eq_def aggregate_sum_def scenarioStats_def
      ee_distinct_def aggregate_array_def)

theorem aggregateToProvinceLevel_pools_members_witness:
  "aggregateToProvinceLevel_flood scenarioStats = Some scenarioFloodProvinces
   \<and> scenarioFloodProvinces ! 0 \<in> set scenarioFloodProvinces
   \<and> aggregateToProvinceLevel_landslide scenarioStats = Some scenarioRiskProvinces
   \<and> scenarioRiskProvinces ! 0 \<in> set scenarioRiskProvinces
   \<and> map (\<lambda>p. stringProperty p ''Province'') scenarioFloodProvinces = [''A'', ''B'']
   \<and> map (\<lambda>p. numProperty p ''Total_Population'') scenarioFloodProvinces = [150, 200]
   \<and> map (\<lambda>p. numProperty p ''Exposed_Population'') scenarioFloodProvinces = [60, 0]
   \<and> map (\<lambda>p. numProperty p ''Exposure_Ratio'') scenarioFloodProvinces = [2/5, 0]
   \<and> map (\<lambda>p. numProperty p ''Average_Risk_Score'') scenarioRiskProvinces = [11/20, 0]
   \<and> (\<exists>members. members \<noteq> []
        \<and> numProperty (scenarioFloodProvinces ! 0) ''Total_Population''
            = sum_list (map (\<lambda>z. numProperty z ''LLG_Population'') members)
        \<and> numProperty (scenarioFloodProvinces ! 0) ''Exposure_Ratio''
            = numProperty (scenarioFloodProvinces ! 0) ''Exposed_Population''
              / numProperty (scenarioFloodProvinces ! 0) ''Total_Population'')
   \<and> (\<exists>members. members \<noteq> []
        \<and> numProperty (scenarioRiskProvinces ! 0) ''Average_Risk_Score''
            = sum_list (map (\<lambda>z. numProperty z ''Risk_Score'') members)
              / real (length members))"
proof -
  have h1: "aggregateToProvinceLevel_flood scenarioStats = Some scenarioFloodProvinces"
    by (simp add: aggregateToProvinceLevel_flood_total)
  have h3: "aggregateToProvinceLevel_landslide scenarioStats = Some scenarioRiskProvinces"
    by (simp add: aggregateToProvinceLevel_landslide_total)
  have "length (map (\<lambda>p. stringProperty p ''Province'') scenarioFloodProvinces) = 2"
    by (simp only: scenario_flood_names) simp
  then have len: "length scenarioFloodProvinces = 2" by simp
  then have h2: "scenarioFloodProvinces ! 0 \<in> set scenarioFloodProvinces"
    by (intro nth_mem) simp
  have "length (map (\<lambda>p. stringProperty p ''Province'') scenarioRiskProvinces) = 2"
    by (simp only: scenario_risk_values(1)) simp
  then have h4: "scenarioRiskProvinces ! 0 \<in> set scenarioRiskProvinces"
    by (intro nth_mem) simp
  have "map (\<lambda>p. numProperty p ''Total_Population'') scenarioFloodProvinces ! 0 = 150"
    by (simp only: scenario_flood_values(1)) simp
  then have pos: "numProperty (scenarioFloodProvinces ! 0) ''Total_Population'' = 150"
    using len by simp
  from aggregateToProvinceLevel_pools_members [OF h1 h2 h3 h4] h1 h2 h3 h4 pos
  show ?thesis
    using scenario_flood_names scenario_flood_values scenario_risk_values
    by (simp only: simp_thms) (auto simp: pos)
qed

section \<open>National totals\<close>

lemma zoneSum_mset: "mset xs = mset ys \<Longrightarrow> zoneSum img xs = zoneSum img ys"
proof -
  assume "mset xs = mset ys"
  then have "mset (map (\<lambda>c. pixelValue (img c)) xs) = mset (map (\<lambda>c. pixelValue (img c)) ys)"
    by simp
  then have "sum_mset (mset (map (\<lambda>c. pixelValue (img c)) xs))
      = sum_mset (mset (map (\<lambda>c. pixelValue (img c)) ys))"
    by (rule arg_cong)
  then show ?thesis
    by (simp only: sum_mset_sum_list zoneSum_def)
qed

lemma zoneSum_concat:
  "zoneSum img (concat (map geometry zones)) = sum_list (map (\<lambda>z. zoneSum img (geometry z)) zones)"
  by (induction zones) (simp_all add: zoneSum_def)

lemma round_sum_list_gap:
  "\<bar>ee_round (sum_list (map f zs)) - sum_list (map (\<lambda>z. ee_round (f z)) zs)\<bar>
     \<le> (real (length zs) + 1) / 2"
proof -
  have each: "\<bar>sum_list (map (\<lambda>z. ee_round (f z)) zs) - sum_list (map f zs)\<bar>
      \<le> real (length zs) / 2"
  proof (induction zs)
    case Nil
    then show ?case by simp
  next
    case (Cons z zs)
    let ?rest = "sum_list (map (\<lambda>z. ee_round (f z)) zs) - sum_list (map f zs)"
    have one: "\<bar>ee_round (f z) - f z\<bar> \<le> 1 / 2"
      using of_int_round_abs_le [of "f z"] by (simp add: ee_round_def)
    have "sum_list (map (\<lambda>z. ee_round (f z)) (z # zs)) - sum_list (map f (z # zs))
        = (ee_round (f z) - f z) + ?rest"
      by simp
    also have "\<bar>\<dots>\<bar> \<le> \<bar>ee_round (f z) - f z\<bar> + \<bar>?rest\<bar>"
      by (rule abs_triangle_ineq)
    also have "\<dots> \<le> 1 / 2 + real (length zs) / 2"
      using one Cons.IH by (rule add_mono)
    also have "\<dots> = real (length (z # zs)) / 2"
      by (simp add: add_divide_distrib)
    finally show ?case .
  qed
  let ?s = "sum_list (map f zs)"
  have top: "\<bar>ee_round ?s - ?s\<bar> \<le> 1 / 2"
    using of_int_round_abs_le [of ?s] by (simp add: ee_round_def)
  have "ee_round ?s - sum_list (map (\<lambda>z. ee_round (f z)) zs)
      = (ee_round ?s - ?s) + (?s - sum_list (map (\<lambda>z. ee_round (f z)) zs))"
    by simp
  also have "\<bar>\<dots>\<bar> \<le> \<bar>ee_round ?s - ?s\<bar> + \<bar>?s - sum_list (map (\<lambda>z. ee_round (f z)) zs)\<bar>"
    by (rule abs_triangle_ineq)
  also have "\<dots> \<le> 1 / 2 + real (length zs) / 2"
    using top each by (intro add_mono) (simp_all add: abs_minus_commute)
  also have "\<dots> = (real (length zs) + 1) / 2"
    by (simp add: add_divide_distrib)
  finally show ?thesis .
qed

lemma calculateNationalRiskTotals_values:
  "lowTotal (calculateNationalRiskTotals population riskMap region)
     = ee_round (zoneSum (tierLayer population riskMap 1) region)"
  "mediumTotal (calculateNationalRiskTotals population riskMap region)
     = ee_round (zoneSum (tierLayer population riskMap 2) region)"
  "highTotal (calculateNationalRiskTotals population riskMap region)
     = ee_round (zoneSum (tierLayer population riskMap 3) region)"
  "veryHighTotal (calculateNationalRiskTotals population riskMap region)
     = ee_round (zoneSum (tierLayer population riskMap 4) region)"
  by (simp_all add: calculateNationalRiskTotals_def Let_def reduceRegion_def nullProtect_reduceSum)

lemma llgStats_tier_counts:
  assumes "calculateLLGStatistics_landslide boundaries population riskMap = Some llgStats"
  shows "map (\<lambda>r. numProperty r ''Low_Risk_Population'') llgStats
      = map (\<lambda>z. ee_round (zoneSum (tierLayer population riskMap 1) (geometry z))) boundaries"
    and "map (\<lambda>r. numProperty r ''Medium_Risk_Population'') llgStats
      = map (\<lambda>z. ee_round (zoneSum (tierLayer population riskMap 2) (geometry z))) boundaries"
    and "map (\<lambda>r. numProperty r ''High_Risk_Population'') llgStats
      = map (\<lambda>z. ee_round (zoneSum (tierLayer population riskMap 3) (geometry z))) boundaries"
    and "map (\<lambda>r. numProperty r ''Very_High_Risk_Population'') llgStats
      = map (\<lambda>z. ee_round (zoneSum (tierLayer population riskMap 4) (geometry z))) boundaries"
  using calculateLLGStatistics_landslide_nth(1) [OF assms] zone_risk_counts(2-5) [OF assms]
  by (simp_all add: list_eq_iff_nth_eq)

lemma national_vs_zones:
  assumes "calculateLLGStatistics_landslide boundaries population riskMap = Some llgStats"
    and "mset (concat (map geometry boundaries)) = mset region"
    and "map (\<lambda>r. numProperty r key) llgStats
      = map (\<lambda>z. ee_round (zoneSum layer (geometry z))) boundaries"
  shows "ee_round (zoneSum layer region)
      = ee_round (sum_list (map (\<lambda>z. zoneSum layer (geometry z)) boundaries))"
    and "\<bar>ee_round (zoneSum layer region) - sum_list (map (\<lambda>r. numProperty r key) llgStats)\<bar>
      \<le> (real (length boundaries) + 1) / 2"
proof -
  have "zoneSum layer region = zoneSum layer (concat (map geometry boundaries))"
    by (rule zoneSum_mset) (simp add: assms(2))
  then show eq: "ee_round (zoneSum layer region)
      = ee_round (sum_list (map (\<lambda>z. zoneSum layer (geometry z)) boundaries))"
    by (simp add: zoneSum_concat)
  show "\<bar>ee_round (zoneSum layer region) - sum_list (map (\<lambda>r. numProperty r key) llgStats)\<bar>
      \<le> (real (length boundaries) + 1) / 2"
    unfolding eq assms(3)
    using round_sum_list_gap [of "\<lambda>z. zoneSum layer (geometry z)" boundaries]
    by (simp add: comp_def)
qed


lemma calculateNationalExposure_sum:
  "calculateNationalExposure llgStats
     = sum_list (map (\<lambda>z. numProperty z ''Exposed_Population'') llgStats)"
  by (simp add: calculateNationalExposure_def aggregate_sum_numProperty)

text \<open>
  C8 (as the code has it): the landslide script's national totals reduce each tier layer
  over the national region and round once.  When the zones' cells make up the region,
  each national tier total is the rounding of the sum of the zones' unrounded tier sums,
  and it differs from the sum of the zones' recorded (rounded) tier counts by at most
  (number of zones + 1) / 2.  The flood script's national exposure is the sum of the
  zones' recorded exposed populations.
\<close>

theorem national_totals_round_once:
  assumes "calculateLLGStatistics_landslide boundaries population riskMap = Some llgStats"
    and "mset (concat (map geometry boundaries)) = mset region"
  shows "(let national = calculateNationalRiskTotals population riskMap region;
              zoneSumOf = (\<lambda>band z. nullProtect
                (reduceRegion (riskMultiband population riskMap) (geometry z) band));
              gap = (real (length boundaries) + 1) / 2
          in lowTotal national = ee_round (sum_list (map (zoneSumOf ''low_pop'') boundaries))
           \<and> mediumTotal national
               = ee_round (sum_list (map (zoneSumOf ''medium_pop'') boundaries))
           \<and> highTotal national = ee_round (sum_list (map (zoneSumOf ''high_pop'') boundaries))
           \<and> veryHighTotal national
               = ee_round (sum_list (map (zoneSumOf ''very_high_pop'') boundaries))
           \<and> \<bar>lowTotal national
                - sum_list (map (\<lambda>r. numProperty r ''Low_Risk_Population'') llgStats)\<bar> \<le> gap
           \<and> \<bar>mediumTotal national
                - sum_list (map (\<lambda>r. numProperty r ''Medium_Risk_Population'') llgStats)\<bar> \<le> gap
           \<and> \<bar>highTotal national
                - sum_list (map (\<lambda>r. numProperty r ''High_Risk_Population'') llgStats)\<bar> \<le> gap
           \<and> \<bar>veryHighTotal national
                - sum_list (map (\<lambda>r. numProperty r ''Very_High_Risk_Population'') llgStats)\<bar>
               \<le> gap)
       \<and> calculateNationalExposure floodLlgStats
           = sum_list (map (\<lambda>z. numProperty z ''Exposed_Population'') floodLlgStats)"
  unfolding Let_def riskMultiband_stats calculateNationalRiskTotals_values
  using national_vs_zones [OF assms llgStats_tier_counts(1) [OF assms(1)]]
    national_vs_zones [OF assms llgStats_tier_counts(2) [OF assms(1)]]
    national_vs_zones [OF assms llgStats_tier_counts(3) [OF assms(1)]]
    national_vs_zones [OF assms llgStats_tier_counts(4) [OF assms(1)]]
    calculateNationalExposure_sum [of floodLlgStats]
  by simp

lemma demo_very_high:
  "veryHighTotal demoNational = 3"
  "sum_list (map (\<lambda>r. numProperty r ''Very_High_Risk_Population'') demoLlgStats) = 4"
proof -
  show "veryHighTotal demoNational = 3"
    by (simp add: calculateNationalRiskTotals_values demoRegion_def demo_eval)
  show "sum_list (map (\<lambda>r. numProperty r ''Very_High_Risk_Population'') demoLlgStats) = 4"
    unfolding llgStats_tier_counts(4) [OF calculateLLGStatistics_landslide_the]
    by (simp add: demo_eval)
qed

lemma demo_partition: "mset (concat (map geometry demoZones)) = mset demoRegion"
  by (simp add: demoZones_def demoRegion_def)

theorem national_totals_round_once_witness:
  "calculateLLGStatistics_landslide demoZones demoPopulation demoRisk = Some demoLlgStats
   \<and> mset (concat (map geometry demoZones)) = mset demoRegion
   \<and> veryHighTotal demoNational = 3
   \<and> sum_list (map (\<lambda>r. numProperty r ''Very_High_Risk_Population'') demoLlgStats) = 4
   \<and> \<bar>veryHighTotal demoNational
        - sum_list (map (\<lambda>r. numProperty r ''Very_High_Risk_Population'') demoLlgStats)\<bar>
      \<le> (real (length demoZones) + 1) / 2
   \<and> calculateNationalExposure scenarioStats = 60"
proof -
  have h1: "calculateLLGStatistics_landslide demoZones demoPopulation demoRisk = Some demoLlgStats"
    by (rule calculateLLGStatistics_landslide_the)
  have e: "sum_list (map (\<lambda>z. numProperty z ''Exposed_Population'') scenarioStats) = 60"
    by (simp add: scenarioStats_def numProperty_def)
  from national_totals_round_once [OF h1 demo_partition, of scenarioStats] h1 demo_partition
  show ?thesis
    using demo_very_high e by (simp add: Let_def)
qed

text \<open>
  Over the demo area the zones' recorded very-high counts are 1, 1, 0, 2, 0, in sum 4;
  the national reduction sees 0.625 + 0.75 + 2 = 3.375 and records 3.
\<close>

theorem national_totals_counterexample:
  "mset (concat (map geometry demoZones)) = mset demoRegion
   \<and> veryHighTotal (calculateNationalRiskTotals demoPopulation demoRisk demoRegion) = 3
   \<and> sum_list (map (\<lambda>r. numProperty r ''Very_High_Risk_Population'') demoLlgStats) = 4
   \<and> veryHighTotal (calculateNationalRiskTotals demoPopulation demoRisk demoRegion)
       \<noteq> sum_list (map (\<lambda>r. numProperty r ''Very_High_Risk_Population'') demoLlgStats)"
  using demo_partition demo_very_high by simp

end
